theory Spec2Isabelle
  imports Main "HOL-Library.Sublist"
begin

section \<open>The host framework: dictionaries, errors and signals\<close>

text \<open>
  The plugin of \<^verbatim>\<open>gsignond-sasl-plugin.c\<close> talks to two collaborators that live outside
  the repository: the gsignond framework (dictionaries, session data accessors, the three
  signals) and the gsasl mechanism library. Dictionaries are reference-counted heap objects
  that the plugin holds by pointer, so they are kept in an explicit store: an address that
  is not in the store is not a live dictionary.
\<close>

type_synonym addr = nat

datatype gvariant = VString string | VStringArray "string list"

record dictionary =
  ref_count :: nat
  entries :: "string \<rightharpoonup> gvariant"

type_synonym store = "addr \<rightharpoonup> dictionary"

definition gsignond_dictionary_get :: "store \<Rightarrow> addr \<Rightarrow> string \<Rightarrow> gvariant option" where
  "gsignond_dictionary_get st a key = (case st a of None \<Rightarrow> None | Some d \<Rightarrow> entries d key)"

definition gsignond_dictionary_get_string :: "store \<Rightarrow> addr \<Rightarrow> string \<Rightarrow> string option" where
  "gsignond_dictionary_get_string st a key =
     (case gsignond_dictionary_get st a key of
        Some (VString s) \<Rightarrow> Some s
      | _ \<Rightarrow> None)"

definition gsignond_session_data_get_username :: "store \<Rightarrow> addr \<Rightarrow> string option" where
  "gsignond_session_data_get_username st a = gsignond_dictionary_get_string st a ''UserName''"

definition gsignond_session_data_get_secret :: "store \<Rightarrow> addr \<Rightarrow> string option" where
  "gsignond_session_data_get_secret st a = gsignond_dictionary_get_string st a ''Secret''"

definition gsignond_session_data_get_realm :: "store \<Rightarrow> addr \<Rightarrow> string option" where
  "gsignond_session_data_get_realm st a = gsignond_dictionary_get_string st a ''Realm''"

definition gsignond_session_data_get_allowed_realms :: "store \<Rightarrow> addr \<Rightarrow> string list option" where
  "gsignond_session_data_get_allowed_realms st a =
     (case gsignond_dictionary_get st a ''AllowedRealms'' of
        Some (VStringArray items) \<Rightarrow> Some items
      | _ \<Rightarrow> None)"

definition gsignond_dictionary_ref :: "store \<Rightarrow> addr \<Rightarrow> store" where
  "gsignond_dictionary_ref st a =
     (case st a of
        None \<Rightarrow> st
      | Some d \<Rightarrow> st(a \<mapsto> d\<lparr>ref_count := Suc (ref_count d)\<rparr>))"

text \<open>Dropping the last reference destroys the dictionary.\<close>

definition gsignond_dictionary_unref :: "store \<Rightarrow> addr \<Rightarrow> store" where
  "gsignond_dictionary_unref st a =
     (case st a of
        None \<Rightarrow> st
      | Some d \<Rightarrow>
          if ref_count d \<le> 1 then st(a := None)
          else st(a \<mapsto> d\<lparr>ref_count := ref_count d - 1\<rparr>))"

text \<open>
  Modelled from the spec: \<^verbatim>\<open>gsignond_is_host_in_domain\<close> belongs to the framework's
  utilities; the specification gives its meaning as "a domain match succeeds if hostname
  equals the domain or is a dot-suffixed subdomain of it".
\<close>

definition gsignond_is_host_in_domain :: "string \<Rightarrow> string \<Rightarrow> bool" where
  "gsignond_is_host_in_domain host domain =
     (host = domain \<or> suffix (CHR ''.'' # domain) host)"

datatype gsignond_error =
    GSIGNOND_ERROR_NOT_AUTHORIZED
  | GSIGNOND_ERROR_OPERATION_NOT_SUPPORTED
  | GSIGNOND_ERROR_WRONG_STATE
  | GSIGNOND_ERROR_SESSION_CANCELED

text \<open>
  The three signals of the plugin interface. A response carries the content of the
  dictionary it was emitted with; an error carries the code and the message of the GError.
\<close>

datatype signal =
    Response "(string \<times> gvariant) list"
  | ResponseFinal "(string \<times> gvariant) list"
  | Error gsignond_error string

section \<open>The mechanism library\<close>

text \<open>
  The property numbers of \<^verbatim>\<open>gsasl.h\<close>: the eighteen the callback serves, and any other
  value of the enumeration.
\<close>

datatype gsasl_property =
    GSASL_AUTHID
  | GSASL_AUTHZID
  | GSASL_PASSWORD
  | GSASL_ANONYMOUS_TOKEN
  | GSASL_SERVICE
  | GSASL_HOSTNAME
  | GSASL_GSSAPI_DISPLAY_NAME
  | GSASL_PASSCODE
  | GSASL_SUGGESTED_PIN
  | GSASL_PIN
  | GSASL_REALM
  | GSASL_DIGEST_MD5_HASHED_PASSWORD
  | GSASL_QOPS
  | GSASL_QOP
  | GSASL_SCRAM_ITER
  | GSASL_SCRAM_SALT
  | GSASL_SCRAM_SALTED_PASSWORD
  | GSASL_CB_TLS_UNIQUE
  | GSASL_OTHER_PROPERTY nat

definition GSASL_OK :: int where "GSASL_OK = 0"
definition GSASL_NEEDS_MORE :: int where "GSASL_NEEDS_MORE = 1"
definition GSASL_UNKNOWN_MECHANISM :: int where "GSASL_UNKNOWN_MECHANISM = 2"
definition GSASL_MALLOC_ERROR :: int where "GSASL_MALLOC_ERROR = 7"
definition GSASL_NO_CALLBACK :: int where "GSASL_NO_CALLBACK = 51"
definition GSASL_NO_ANONYMOUS_TOKEN :: int where "GSASL_NO_ANONYMOUS_TOKEN = 52"

type_synonym gsasl_ctx = nat
type_synonym gsasl_sess = nat

text \<open>
  The library is a parameter of the model. Its own state (contexts, sessions, the
  properties stored in them, and whether a callback and its hook are registered in a
  context) is a value of type \<open>'l\<close> that every library call takes and returns.
  \<open>gsasl_init\<close> and \<open>gsasl_client_start\<close> report, besides the result code, the value their
  out-parameter holds after the call (it was NULL before). The plugin has one callback
  function, with itself as the hook; \<open>gsasl_callback_hook_set\<close> and \<open>gsasl_callback_set\<close>
  record in the library state that they are registered in a context. \<open>gsasl_step64\<close> is
  handed that function and decides from its own state whether and how often to call it.
\<close>

record 'l gsasl_library =
  gsasl_init :: "'l \<Rightarrow> int \<times> gsasl_ctx option \<times> 'l"
  gsasl_callback_hook_set :: "'l \<Rightarrow> gsasl_ctx option \<Rightarrow> 'l"
  gsasl_callback_set :: "'l \<Rightarrow> gsasl_ctx option \<Rightarrow> 'l"
  gsasl_client_start :: "'l \<Rightarrow> gsasl_ctx \<Rightarrow> string \<Rightarrow> int \<times> gsasl_sess option \<times> 'l"
  gsasl_step64 :: "('l \<Rightarrow> gsasl_sess \<Rightarrow> gsasl_property \<Rightarrow> int \<times> 'l) \<Rightarrow>
                   'l \<Rightarrow> gsasl_sess option \<Rightarrow> string option \<Rightarrow> int \<times> string \<times> 'l"
  gsasl_finish :: "'l \<Rightarrow> gsasl_sess \<Rightarrow> 'l"
  gsasl_property_set :: "'l \<Rightarrow> gsasl_sess \<Rightarrow> gsasl_property \<Rightarrow> string \<Rightarrow> 'l"

section \<open>The plugin\<close>

record sasl_plugin =
  gsasl_context :: "gsasl_ctx option"
  gsasl_session :: "gsasl_sess option"
  session_data :: "addr option"

text \<open>
  Everything an operation can read or change: the plugin object, the dictionaries,
  the library's state and the signals emitted so far (oldest first).
\<close>

record 'l world =
  plugin :: sasl_plugin
  dicts :: store
  lib :: 'l
  emitted :: "signal list"

definition gsignond_plugin_error :: "'l world \<Rightarrow> gsignond_error \<Rightarrow> string \<Rightarrow> 'l world" where
  "gsignond_plugin_error w code message = w\<lparr>emitted := emitted w @ [Error code message]\<rparr>"

definition gsignond_plugin_response :: "'l world \<Rightarrow> (string \<times> gvariant) list \<Rightarrow> 'l world" where
  "gsignond_plugin_response w response = w\<lparr>emitted := emitted w @ [Response response]\<rparr>"

definition gsignond_plugin_response_final :: "'l world \<Rightarrow> (string \<times> gvariant) list \<Rightarrow> 'l world" where
  "gsignond_plugin_response_final w response =
     w\<lparr>emitted := emitted w @ [ResponseFinal response]\<rparr>"

subsection \<open>Formatting a result code with \<^verbatim>\<open>%d\<close>\<close>

definition digit_char :: "nat \<Rightarrow> char" where
  "digit_char n = char_of (48 + n)"

fun nat_digits :: "nat \<Rightarrow> string" where
  "nat_digits n =
     (if n < 10 then [digit_char n] else nat_digits (n div 10) @ [digit_char (n mod 10)])"

declare nat_digits.simps [simp del]

definition format_d :: "int \<Rightarrow> string" where
  "format_d i = (if i < 0 then CHR ''-'' # nat_digits (nat (- i)) else nat_digits (nat i))"

subsection \<open>Operations\<close>

definition gsignond_sasl_plugin_cancel :: "'l world \<Rightarrow> 'l world" where
  "gsignond_sasl_plugin_cancel w =
     gsignond_plugin_error w GSIGNOND_ERROR_SESSION_CANCELED ''Session canceled''"

definition reset_session :: "'l gsasl_library \<Rightarrow> 'l world \<Rightarrow> 'l world" where
  "reset_session L w =
     (let w1 = (case session_data (plugin w) of
                  Some a \<Rightarrow> w\<lparr>dicts := gsignond_dictionary_unref (dicts w) a,
                              plugin := (plugin w)\<lparr>session_data := None\<rparr>\<rparr>
                | None \<Rightarrow> w)
      in case gsasl_session (plugin w1) of
           Some s \<Rightarrow> w1\<lparr>lib := gsasl_finish L (lib w1) s,
                        plugin := (plugin w1)\<lparr>gsasl_session := None\<rparr>\<rparr>
         | None \<Rightarrow> w1)"

definition set_gsasl_property ::
  "'l gsasl_library \<Rightarrow> 'l \<Rightarrow> gsasl_sess \<Rightarrow> gsasl_property \<Rightarrow> string option \<Rightarrow> int \<times> 'l" where
  "set_gsasl_property L l sess prop val =
     (case val of
        None \<Rightarrow> (GSASL_NO_CALLBACK, l)
      | Some v \<Rightarrow> (GSASL_OK, gsasl_property_set L l sess prop v))"

text \<open>
  The callback reads the plugin through the hook of the library context; the plugin and
  the dictionaries do not change while a step runs, so they are arguments here. The
  library calls it only if the initialiser registered it.
\<close>

definition gsasl_callback ::
  "'l gsasl_library \<Rightarrow> sasl_plugin \<Rightarrow> store \<Rightarrow> 'l \<Rightarrow> gsasl_sess \<Rightarrow> gsasl_property \<Rightarrow> int \<times> 'l" where
  "gsasl_callback L self st l sess prop =
     (case session_data self of
        None \<Rightarrow> (GSASL_NO_CALLBACK, l)
      | Some sd \<Rightarrow>
          (case prop of
             GSASL_AUTHID \<Rightarrow>
               set_gsasl_property L l sess prop (gsignond_session_data_get_username st sd)
           | GSASL_AUTHZID \<Rightarrow>
               set_gsasl_property L l sess prop (gsignond_dictionary_get_string st sd ''Authzid'')
           | GSASL_PASSWORD \<Rightarrow>
               set_gsasl_property L l sess prop (gsignond_session_data_get_secret st sd)
           | GSASL_ANONYMOUS_TOKEN \<Rightarrow>
               set_gsasl_property L l sess prop
                 (gsignond_dictionary_get_string st sd ''AnonymousToken'')
           | GSASL_SERVICE \<Rightarrow>
               set_gsasl_property L l sess prop (gsignond_dictionary_get_string st sd ''Service'')
           | GSASL_HOSTNAME \<Rightarrow>
               set_gsasl_property L l sess prop (gsignond_dictionary_get_string st sd ''Hostname'')
           | GSASL_GSSAPI_DISPLAY_NAME \<Rightarrow>
               set_gsasl_property L l sess prop
                 (gsignond_dictionary_get_string st sd ''GssapiDisplayName'')
           | GSASL_PASSCODE \<Rightarrow>
               set_gsasl_property L l sess prop (gsignond_dictionary_get_string st sd ''Passcode'')
           | GSASL_SUGGESTED_PIN \<Rightarrow>
               set_gsasl_property L l sess prop
                 (gsignond_dictionary_get_string st sd ''SuggestedPin'')
           | GSASL_PIN \<Rightarrow>
               set_gsasl_property L l sess prop (gsignond_dictionary_get_string st sd ''Pin'')
           | GSASL_REALM \<Rightarrow>
               set_gsasl_property L l sess prop (gsignond_dictionary_get_string st sd ''Realm'')
           | GSASL_DIGEST_MD5_HASHED_PASSWORD \<Rightarrow>
               set_gsasl_property L l sess prop
                 (gsignond_dictionary_get_string st sd ''DigestMd5HashedPassword'')
           | GSASL_QOPS \<Rightarrow>
               set_gsasl_property L l sess prop (gsignond_dictionary_get_string st sd ''Qops'')
           | GSASL_QOP \<Rightarrow>
               set_gsasl_property L l sess prop (gsignond_dictionary_get_string st sd ''Qop'')
           | GSASL_SCRAM_ITER \<Rightarrow>
               set_gsasl_property L l sess prop (gsignond_dictionary_get_string st sd ''ScramIter'')
           | GSASL_SCRAM_SALT \<Rightarrow>
               set_gsasl_property L l sess prop (gsignond_dictionary_get_string st sd ''ScramSalt'')
           | GSASL_SCRAM_SALTED_PASSWORD \<Rightarrow>
               set_gsasl_property L l sess prop
                 (gsignond_dictionary_get_string st sd ''ScramSaltedPassword'')
           | GSASL_CB_TLS_UNIQUE \<Rightarrow>
               set_gsasl_property L l sess prop
                 (gsignond_dictionary_get_string st sd ''CbTlsUnique'')
           | GSASL_OTHER_PROPERTY n \<Rightarrow> (GSASL_NO_CALLBACK, l)))"

text \<open>
  The response dictionary is created, filled, emitted and released inside the iteration;
  no other pointer to it exists, so it is a local value and not an object of the store.
\<close>

definition do_gsasl_iteration :: "'l gsasl_library \<Rightarrow> 'l world \<Rightarrow> string option \<Rightarrow> 'l world" where
  "do_gsasl_iteration L w challenge =
     (case gsasl_step64 L (gsasl_callback L (plugin w) (dicts w)) (lib w)
             (gsasl_session (plugin w)) challenge of
        (step_res, output, l1) \<Rightarrow>
          let w1 = w\<lparr>lib := l1\<rparr> in
          if step_res \<noteq> GSASL_OK \<and> step_res \<noteq> GSASL_NEEDS_MORE then
            gsignond_plugin_error w1 GSIGNOND_ERROR_NOT_AUTHORIZED
              (''Authorization error '' @ format_d step_res)
          else
            let response = [(''ResponseBase64'', VString output)] in
            if step_res = GSASL_OK then
              gsignond_plugin_response_final (reset_session L w1) response
            else
              gsignond_plugin_response w1 response)"

definition gsignond_sasl_plugin_request :: "'l gsasl_library \<Rightarrow> 'l world \<Rightarrow> addr \<Rightarrow> 'l world" where
  "gsignond_sasl_plugin_request L w sd =
     (if gsasl_session (plugin w) = None then
        gsignond_plugin_error w GSIGNOND_ERROR_WRONG_STATE
          ''request_initial needs to be issued first''
      else
        do_gsasl_iteration L w (gsignond_dictionary_get_string (dicts w) sd ''ChallengeBase64''))"

text \<open>
  The loop of \<^verbatim>\<open>gsignond_sasl_plugin_request_initial\<close> over the allowed realms, with the two
  flags it sets.
\<close>

fun check_allowed_realms ::
  "string option \<Rightarrow> string option \<Rightarrow> string list \<Rightarrow> bool \<times> bool \<Rightarrow> bool \<times> bool" where
  "check_allowed_realms realm host [] flags = flags"
| "check_allowed_realms realm host (item # items) (realm_ok, host_ok) =
     check_allowed_realms realm host items
       (case realm of
          Some r \<Rightarrow> if r = item then True else realm_ok
        | None \<Rightarrow> realm_ok,
        case host of
          Some h \<Rightarrow> if gsignond_is_host_in_domain h item then True else host_ok
        | None \<Rightarrow> host_ok)"

text \<open>The \<^verbatim>\<open>identity_method_cache\<close> argument is never read and is left out.\<close>

definition gsignond_sasl_plugin_request_initial ::
  "'l gsasl_library \<Rightarrow> 'l world \<Rightarrow> addr \<Rightarrow> string \<Rightarrow> 'l world" where
  "gsignond_sasl_plugin_request_initial L w sd mechanism =
     (case gsasl_context (plugin w) of
        None \<Rightarrow>
          gsignond_plugin_error w GSIGNOND_ERROR_OPERATION_NOT_SUPPORTED
            ''Couldn't initialize gsasl library''
      | Some ctx \<Rightarrow>
          let realm = gsignond_session_data_get_realm (dicts w) sd;
              host = gsignond_dictionary_get_string (dicts w) sd ''Hostname'';
              allowed_realms = gsignond_session_data_get_allowed_realms (dicts w) sd;
              (realm_ok, host_ok) =
                (case allowed_realms of
                   Some items \<Rightarrow> check_allowed_realms realm host items (False, False)
                 | None \<Rightarrow> (False, False))
          in
          if realm \<noteq> None \<and> \<not> realm_ok then
            gsignond_plugin_error w GSIGNOND_ERROR_NOT_AUTHORIZED ''Unauthorized realm''
          else if host \<noteq> None \<and> \<not> host_ok then
            gsignond_plugin_error w GSIGNOND_ERROR_NOT_AUTHORIZED ''Unauthorized hostname''
          else
            let w1 = reset_session L w in
            (case gsasl_client_start L (lib w1) ctx mechanism of
               (res, sess, l1) \<Rightarrow>
                 let w2 = w1\<lparr>lib := l1, plugin := (plugin w1)\<lparr>gsasl_session := sess\<rparr>\<rparr> in
                 if res \<noteq> GSASL_OK then
                   gsignond_plugin_error w2 GSIGNOND_ERROR_OPERATION_NOT_SUPPORTED
                     (''Couldn't initialize gsasl session, error '' @ format_d res)
                 else
                   let w3 = w2\<lparr>dicts := gsignond_dictionary_ref (dicts w2) sd,
                               plugin := (plugin w2)\<lparr>session_data := Some sd\<rparr>\<rparr>
                   in do_gsasl_iteration L w3
                        (gsignond_dictionary_get_string (dicts w3) sd ''ChallengeBase64'')))"

definition gsignond_sasl_plugin_user_action_finished :: "'l world \<Rightarrow> addr \<Rightarrow> 'l world" where
  "gsignond_sasl_plugin_user_action_finished w sd =
     gsignond_plugin_error w GSIGNOND_ERROR_WRONG_STATE
       ''SASL plugin doesn't support user actions''"

definition gsignond_sasl_plugin_refresh :: "'l world \<Rightarrow> addr \<Rightarrow> 'l world" where
  "gsignond_sasl_plugin_refresh w sd =
     gsignond_plugin_error w GSIGNOND_ERROR_WRONG_STATE ''SASL plugin doesn't support refresh''"

text \<open>
  A new plugin object: GObject hands out zeroed instance memory, so the retained session
  data starts as NULL like the two fields the initialiser sets. The context is whatever
  \<open>gsasl_init\<close> left in its out-parameter; hook and callback are registered only when it
  answered \<open>GSASL_OK\<close> (otherwise the initialiser only logs the code).
\<close>

definition gsignond_sasl_plugin_init :: "'l gsasl_library \<Rightarrow> 'l \<Rightarrow> sasl_plugin \<times> 'l" where
  "gsignond_sasl_plugin_init L l =
     (case gsasl_init L l of
        (rc, ctx, l1) \<Rightarrow>
          let self = \<lparr>gsasl_context = ctx, gsasl_session = None, session_data = None\<rparr> in
          if rc \<noteq> GSASL_OK then (self, l1)
          else (self, gsasl_callback_set L (gsasl_callback_hook_set L l1 ctx) ctx))"

definition gsignond_sasl_plugin_finalize :: "'l gsasl_library \<Rightarrow> 'l world \<Rightarrow> 'l world" where
  "gsignond_sasl_plugin_finalize L w = reset_session L w"

text \<open>The \<^verbatim>\<open>PROP_TYPE\<close> branch of \<^verbatim>\<open>gsignond_sasl_plugin_get_property\<close>.\<close>

definition get_property_type :: "sasl_plugin \<Rightarrow> string" where
  "get_property_type sasl_plugin =
     (if gsasl_context sasl_plugin \<noteq> None then ''sasl'' else '''')"

text \<open>
  The five entries that \<^verbatim>\<open>gsignond_plugin_interface_init\<close> installs in the plugin
  interface, as one type of calls and their dispatch.
\<close>

datatype plugin_call =
    Cancel
  | RequestInitial addr string
  | Request addr
  | UserActionFinished addr
  | Refresh addr

fun invoke :: "'l gsasl_library \<Rightarrow> 'l world \<Rightarrow> plugin_call \<Rightarrow> 'l world" where
  "invoke L w Cancel = gsignond_sasl_plugin_cancel w"
| "invoke L w (RequestInitial sd mechanism) = gsignond_sasl_plugin_request_initial L w sd mechanism"
| "invoke L w (Request sd) = gsignond_sasl_plugin_request L w sd"
| "invoke L w (UserActionFinished sd) = gsignond_sasl_plugin_user_action_finished w sd"
| "invoke L w (Refresh sd) = gsignond_sasl_plugin_refresh w sd"

section \<open>Notions of the specification\<close>

text \<open>
  The Property Resolver of the specification: a fixed table from property kinds to keys of
  the session parameters, and the lookup through it.
\<close>

fun resolver_key :: "gsasl_property \<Rightarrow> string option" where
  "resolver_key GSASL_AUTHID = Some ''UserName''"
| "resolver_key GSASL_AUTHZID = Some ''Authzid''"
| "resolver_key GSASL_PASSWORD = Some ''Secret''"
| "resolver_key GSASL_ANONYMOUS_TOKEN = Some ''AnonymousToken''"
| "resolver_key GSASL_SERVICE = Some ''Service''"
| "resolver_key GSASL_HOSTNAME = Some ''Hostname''"
| "resolver_key GSASL_GSSAPI_DISPLAY_NAME = Some ''GssapiDisplayName''"
| "resolver_key GSASL_PASSCODE = Some ''Passcode''"
| "resolver_key GSASL_SUGGESTED_PIN = Some ''SuggestedPin''"
| "resolver_key GSASL_PIN = Some ''Pin''"
| "resolver_key GSASL_REALM = Some ''Realm''"
| "resolver_key GSASL_DIGEST_MD5_HASHED_PASSWORD = Some ''DigestMd5HashedPassword''"
| "resolver_key GSASL_QOPS = Some ''Qops''"
| "resolver_key GSASL_QOP = Some ''Qop''"
| "resolver_key GSASL_SCRAM_ITER = Some ''ScramIter''"
| "resolver_key GSASL_SCRAM_SALT = Some ''ScramSalt''"
| "resolver_key GSASL_SCRAM_SALTED_PASSWORD = Some ''ScramSaltedPassword''"
| "resolver_key GSASL_CB_TLS_UNIQUE = Some ''CbTlsUnique''"
| "resolver_key (GSASL_OTHER_PROPERTY n) = None"

definition listed_properties :: "gsasl_property list" where
  "listed_properties =
     [GSASL_AUTHID, GSASL_AUTHZID, GSASL_PASSWORD, GSASL_ANONYMOUS_TOKEN, GSASL_SERVICE,
      GSASL_HOSTNAME, GSASL_GSSAPI_DISPLAY_NAME, GSASL_PASSCODE, GSASL_SUGGESTED_PIN, GSASL_PIN,
      GSASL_REALM, GSASL_DIGEST_MD5_HASHED_PASSWORD, GSASL_QOPS, GSASL_QOP, GSASL_SCRAM_ITER,
      GSASL_SCRAM_SALT, GSASL_SCRAM_SALTED_PASSWORD, GSASL_CB_TLS_UNIQUE]"

definition resolve :: "sasl_plugin \<Rightarrow> store \<Rightarrow> gsasl_property \<Rightarrow> string option" where
  "resolve self st prop =
     (case session_data self of
        None \<Rightarrow> None
      | Some sd \<Rightarrow>
          (case resolver_key prop of
             None \<Rightarrow> None
           | Some key \<Rightarrow> gsignond_dictionary_get_string st sd key))"

text \<open>
  The authorization policy of the specification, stated on the session parameters: the
  entries of the allowed realms (none when the list is absent), a supplied realm that
  equals no entry, a supplied hostname that lies in no entry's domain.
\<close>

definition allowed_items :: "store \<Rightarrow> addr \<Rightarrow> string list" where
  "allowed_items st sd =
     (case gsignond_session_data_get_allowed_realms st sd of
        Some items \<Rightarrow> items
      | None \<Rightarrow> [])"

definition realm_unauthorized :: "store \<Rightarrow> addr \<Rightarrow> bool" where
  "realm_unauthorized st sd =
     (case gsignond_session_data_get_realm st sd of
        None \<Rightarrow> False
      | Some r \<Rightarrow> r \<notin> set (allowed_items st sd))"

definition host_unauthorized :: "store \<Rightarrow> addr \<Rightarrow> bool" where
  "host_unauthorized st sd =
     (case gsignond_dictionary_get_string st sd ''Hostname'' of
        None \<Rightarrow> False
      | Some h \<Rightarrow> \<not> list_ex (gsignond_is_host_in_domain h) (allowed_items st sd))"

text \<open>
  The state invariant, and the contract of the library's client start that it rests on:
  the out-parameter holds a session exactly when the result is \<open>GSASL_OK\<close>.
\<close>

definition session_inv :: "sasl_plugin \<Rightarrow> bool" where
  "session_inv p = ((gsasl_session p = None) = (session_data p = None))"

definition client_start_contract :: "'l gsasl_library \<Rightarrow> bool" where
  "client_start_contract L =
     (\<forall>l ctx mechanism.
        case gsasl_client_start L l ctx mechanism of
          (res, sess, l1) \<Rightarrow> (res = GSASL_OK) = (sess \<noteq> None))"

section \<open>A toy mechanism library for concrete runs\<close>

text \<open>
  A stand-in for the mechanism library, in the manner of the ANONYMOUS mechanism: it knows
  one mechanism name, its step asks the callback for the anonymous token and fails with
  \<open>GSASL_NO_ANONYMOUS_TOKEN\<close> without one, finishes when no challenge is given and asks for
  another round otherwise. Its state is a flag, set once the callback is registered, and
  the list of the properties stored in sessions; an unregistered callback is never called.
\<close>

type_synonym toy_state = "bool \<times> (gsasl_sess \<times> gsasl_property \<times> string) list"

definition toy_library :: "toy_state gsasl_library" where
  "toy_library =
     \<lparr>gsasl_init = (\<lambda>l. (GSASL_OK, Some 1, l)),
      gsasl_callback_hook_set = (\<lambda>l ctx. l),
      gsasl_callback_set = (\<lambda>l ctx. (True, snd l)),
      gsasl_client_start = (\<lambda>l ctx mech.
        if mech = ''ANONYMOUS'' then (GSASL_OK, Some 7, l)
        else (GSASL_UNKNOWN_MECHANISM, None, l)),
      gsasl_step64 = (\<lambda>cb l sess challenge.
        case sess of
          None \<Rightarrow> (GSASL_NO_CALLBACK, [], l)
        | Some s \<Rightarrow>
            (case (if fst l then cb l s GSASL_ANONYMOUS_TOKEN else (GSASL_NO_CALLBACK, l)) of
               (rc, l1) \<Rightarrow>
                 if rc \<noteq> GSASL_OK then (GSASL_NO_ANONYMOUS_TOKEN, [], l1)
                 else if challenge = None then (GSASL_OK, ''dG9rZW4='', l1)
                 else (GSASL_NEEDS_MORE, ''bW9yZQ=='', l1))),
      gsasl_finish = (\<lambda>l s. (fst l, filter (\<lambda>e. fst e \<noteq> s) (snd l))),
      gsasl_property_set = (\<lambda>l s p v. (fst l, (s, p, v) # snd l))\<rparr>"

text \<open>
  Some dictionaries, and worlds over them: a plugin without a session, one with session 7
  and dictionary 1 retained, one that retains the empty dictionary 4, the plugin as the
  initialiser returns it, and a plugin whose library failed to initialise and left no
  context.
\<close>

definition toy_dicts :: store where
  "toy_dicts =
     [1 \<mapsto> \<lparr>ref_count = 2, entries = [''AnonymousToken'' \<mapsto> VString ''tok'']\<rparr>,
      2 \<mapsto> \<lparr>ref_count = 1, entries = [''ChallengeBase64'' \<mapsto> VString ''Yw=='',
                                         ''AnonymousToken'' \<mapsto> VString ''other'']\<rparr>,
      3 \<mapsto> \<lparr>ref_count = 1, entries = [''Realm'' \<mapsto> VString ''example.org'']\<rparr>,
      4 \<mapsto> \<lparr>ref_count = 1, entries = Map.empty\<rparr>,
      5 \<mapsto> \<lparr>ref_count = 1, entries = [''Realm'' \<mapsto> VString ''example.org'',
                                         ''Hostname'' \<mapsto> VString ''mail.example.org'',
                                         ''AllowedRealms'' \<mapsto>
                                           VStringArray [''example.com'', ''example.org''],
                                         ''AnonymousToken'' \<mapsto> VString ''tok'']\<rparr>,
      6 \<mapsto> \<lparr>ref_count = 1, entries = [''Hostname'' \<mapsto> VString ''mail.example.net'',
                                         ''AllowedRealms'' \<mapsto>
                                           VStringArray [''example.com'', ''example.org'']]\<rparr>,
      9 \<mapsto> \<lparr>ref_count = 2, entries = [''ChallengeBase64'' \<mapsto> VString ''Yw=='',
                                         ''AnonymousToken'' \<mapsto> VString ''tok'']\<rparr>]"

definition toy_fresh :: "toy_state world" where
  "toy_fresh = \<lparr>plugin = \<lparr>gsasl_context = Some 1, gsasl_session = None, session_data = None\<rparr>,
                 dicts = toy_dicts, lib = (True, []), emitted = []\<rparr>"

definition toy_active :: "toy_state world" where
  "toy_active = \<lparr>plugin = \<lparr>gsasl_context = Some 1, gsasl_session = Some 7, session_data = Some 1\<rparr>,
                  dicts = toy_dicts, lib = (True, []), emitted = []\<rparr>"

definition toy_no_token :: "toy_state world" where
  "toy_no_token = \<lparr>plugin = \<lparr>gsasl_context = Some 1, gsasl_session = Some 7, session_data = Some 4\<rparr>,
                  dicts = toy_dicts, lib = (True, []), emitted = []\<rparr>"

definition toy_new :: "toy_state world" where
  "toy_new = \<lparr>plugin = fst (gsignond_sasl_plugin_init toy_library (False, [])),
               dicts = toy_dicts,
               lib = snd (gsignond_sasl_plugin_init toy_library (False, [])),
               emitted = []\<rparr>"

definition toy_uninitialised :: "toy_state world" where
  "toy_uninitialised =
     \<lparr>plugin = fst (gsignond_sasl_plugin_init
                      (toy_library\<lparr>gsasl_init := (\<lambda>l. (GSASL_MALLOC_ERROR, None, l))\<rparr>)
                      (False, [])),
      dicts = toy_dicts, lib = (False, []), emitted = []\<rparr>"

text \<open>
  The world \<open>toy_active\<close> with other credentials written into dictionary 2 beside the
  same challenge; and a plugin that retains dictionary 9, which holds a challenge and a
  token, before and after the caller has written another token into that dictionary.
\<close>

definition toy_changed :: "toy_state world" where
  "toy_changed =
     toy_active\<lparr>dicts := (dicts toy_active)
       (2 \<mapsto> \<lparr>ref_count = 1,
                entries = [''ChallengeBase64'' \<mapsto> VString ''Yw=='',
                           ''AnonymousToken'' \<mapsto> VString ''intruder'',
                           ''UserName'' \<mapsto> VString ''root'',
                           ''Secret'' \<mapsto> VString ''hunter2'']\<rparr>)\<rparr>"

definition toy_aliased :: "toy_state world" where
  "toy_aliased = \<lparr>plugin = \<lparr>gsasl_context = Some 1, gsasl_session = Some 7, session_data = Some 9\<rparr>,
                   dicts = toy_dicts, lib = (True, []), emitted = []\<rparr>"

definition toy_aliased_changed :: "toy_state world" where
  "toy_aliased_changed =
     toy_aliased\<lparr>dicts := (dicts toy_aliased)
       (9 \<mapsto> \<lparr>ref_count = 2,
                entries = [''ChallengeBase64'' \<mapsto> VString ''Yw=='',
                           ''AnonymousToken'' \<mapsto> VString ''intruder'']\<rparr>)\<rparr>"

text \<open>
  A variant of the toy library that breaks the contract: its client start writes the
  session handle and then reports an unknown mechanism.
\<close>

definition toy_leaky_library :: "toy_state gsasl_library" where
  "toy_leaky_library =
     toy_library\<lparr>gsasl_client_start := (\<lambda>l ctx mech. (GSASL_UNKNOWN_MECHANISM, Some 7, l))\<rparr>"

text \<open>
  A plugin whose library failed to initialise but left a context in the out-parameter.
\<close>

definition toy_half_initialised :: "toy_state world" where
  "toy_half_initialised =
     \<lparr>plugin = fst (gsignond_sasl_plugin_init
                      (toy_library\<lparr>gsasl_init := (\<lambda>l. (GSASL_MALLOC_ERROR, Some 1, l))\<rparr>)
                      (False, [])),
      dicts = toy_dicts,
      lib = snd (gsignond_sasl_plugin_init
                   (toy_library\<lparr>gsasl_init := (\<lambda>l. (GSASL_MALLOC_ERROR, Some 1, l))\<rparr>)
                   (False, [])),
      emitted = []\<rparr>"

section \<open>Properties\<close>

lemma plugin_reset_session:
  "plugin (reset_session L w) = (plugin w)\<lparr>session_data := None, gsasl_session := None\<rparr>"
  by (cases "session_data (plugin w)"; cases "gsasl_session (plugin w)")
     (simp_all add: reset_session_def)

lemma emitted_reset_session: "emitted (reset_session L w) = emitted w"
  by (cases "session_data (plugin w)"; cases "gsasl_session (plugin w)")
     (simp_all add: reset_session_def)

lemma dicts_reset_session:
  "dicts (reset_session L w) =
     (case session_data (plugin w) of
        Some a \<Rightarrow> gsignond_dictionary_unref (dicts w) a
      | None \<Rightarrow> dicts w)"
  by (cases "session_data (plugin w)"; cases "gsasl_session (plugin w)")
     (simp_all add: reset_session_def)

lemma lib_reset_session:
  "lib (reset_session L w) =
     (case gsasl_session (plugin w) of
        Some s \<Rightarrow> gsasl_finish L (lib w) s
      | None \<Rightarrow> lib w)"
  by (cases "session_data (plugin w)"; cases "gsasl_session (plugin w)")
     (simp_all add: reset_session_def)

lemma fst_plugin_init:
  "fst (gsignond_sasl_plugin_init L l) =
     \<lparr>gsasl_context = fst (snd (gsasl_init L l)), gsasl_session = None, session_data = None\<rparr>"
  by (simp add: gsignond_sasl_plugin_init_def Let_def split: prod.split)

lemmas reset_session_fields =
  plugin_reset_session emitted_reset_session dicts_reset_session lib_reset_session

lemmas signal_defs =
  gsignond_plugin_error_def gsignond_plugin_response_def gsignond_plugin_response_final_def

lemma do_gsasl_iteration_eq:
  assumes "gsasl_step64 L (gsasl_callback L (plugin w) (dicts w)) (lib w)
             (gsasl_session (plugin w)) challenge = (step_res, output, l1)"
  shows "do_gsasl_iteration L w challenge =
           (if step_res = GSASL_OK then
              (reset_session L (w\<lparr>lib := l1\<rparr>))
                \<lparr>emitted := emitted w @ [ResponseFinal [(''ResponseBase64'', VString output)]]\<rparr>
            else if step_res = GSASL_NEEDS_MORE then
              w\<lparr>lib := l1,
                emitted := emitted w @ [Response [(''ResponseBase64'', VString output)]]\<rparr>
            else
              w\<lparr>lib := l1,
                emitted := emitted w @
                  [Error GSIGNOND_ERROR_NOT_AUTHORIZED
                     (''Authorization error '' @ format_d step_res)]\<rparr>)"
  using assms
  by (simp add: do_gsasl_iteration_def signal_defs Let_def emitted_reset_session)

text \<open>
  Claim C1. A step iteration has three outcomes, decided by the result code of the library's
  step. On \<open>GSASL_OK\<close> one \<^verbatim>\<open>response-final\<close> carrying the output under \<^verbatim>\<open>ResponseBase64\<close> is
  emitted and the mechanism session is finished and forgotten. On \<open>GSASL_NEEDS_MORE\<close> one
  \<^verbatim>\<open>response\<close> with the output under the same key is emitted and the plugin keeps its
  session. On every other code one \<open>NotAuthorized\<close> error whose message ends with the code
  in decimal is emitted and the plugin keeps its session. In each case the list of emitted
  signals grows by exactly one.
\<close>

theorem do_gsasl_iteration_outcomes:
  assumes step: "gsasl_step64 L (gsasl_callback L (plugin w) (dicts w)) (lib w)
                   (gsasl_session (plugin w)) challenge = (step_res, output, l1)"
  shows "(step_res = GSASL_OK \<longrightarrow>
            emitted (do_gsasl_iteration L w challenge) =
              emitted w @ [ResponseFinal [(''ResponseBase64'', VString output)]] \<and>
            gsasl_session (plugin (do_gsasl_iteration L w challenge)) = None \<and>
            lib (do_gsasl_iteration L w challenge) =
              (case gsasl_session (plugin w) of
                 Some s \<Rightarrow> gsasl_finish L l1 s
               | None \<Rightarrow> l1)) \<and>
         (step_res = GSASL_NEEDS_MORE \<longrightarrow>
            do_gsasl_iteration L w challenge =
              w\<lparr>lib := l1,
                emitted := emitted w @ [Response [(''ResponseBase64'', VString output)]]\<rparr>) \<and>
         (step_res \<noteq> GSASL_OK \<and> step_res \<noteq> GSASL_NEEDS_MORE \<longrightarrow>
            do_gsasl_iteration L w challenge =
              w\<lparr>lib := l1,
                emitted := emitted w @
                  [Error GSIGNOND_ERROR_NOT_AUTHORIZED
                     (''Authorization error '' @ format_d step_res)]\<rparr>) \<and>
         length (emitted (do_gsasl_iteration L w challenge)) = Suc (length (emitted w))"
  by (simp add: do_gsasl_iteration_eq [OF step] reset_session_fields
                GSASL_OK_def GSASL_NEEDS_MORE_def split: option.split)

lemmas dictionary_defs =
  gsignond_dictionary_get_def gsignond_dictionary_get_string_def
  gsignond_session_data_get_username_def gsignond_session_data_get_secret_def
  gsignond_session_data_get_realm_def gsignond_session_data_get_allowed_realms_def

lemmas toy_defs =
  toy_library_def toy_dicts_def toy_fresh_def toy_active_def toy_no_token_def

lemmas code_defs =
  GSASL_OK_def GSASL_NEEDS_MORE_def GSASL_UNKNOWN_MECHANISM_def GSASL_NO_CALLBACK_def
  GSASL_NO_ANONYMOUS_TOKEN_def

lemma toy_step_final:
  "gsasl_step64 toy_library (gsasl_callback toy_library (plugin toy_active) (dicts toy_active))
     (lib toy_active) (gsasl_session (plugin toy_active)) None =
   (GSASL_OK, ''dG9rZW4='', (True, [(7, GSASL_ANONYMOUS_TOKEN, ''tok'')]))"
  by (simp add: toy_defs gsasl_callback_def set_gsasl_property_def dictionary_defs code_defs)

lemma toy_step_more:
  "gsasl_step64 toy_library (gsasl_callback toy_library (plugin toy_active) (dicts toy_active))
     (lib toy_active) (gsasl_session (plugin toy_active)) (Some ''Yw=='') =
   (GSASL_NEEDS_MORE, ''bW9yZQ=='', (True, [(7, GSASL_ANONYMOUS_TOKEN, ''tok'')]))"
  by (simp add: toy_defs gsasl_callback_def set_gsasl_property_def dictionary_defs code_defs)

lemma toy_step_failed:
  "gsasl_step64 toy_library (gsasl_callback toy_library (plugin toy_no_token) (dicts toy_no_token))
     (lib toy_no_token) (gsasl_session (plugin toy_no_token)) None =
   (GSASL_NO_ANONYMOUS_TOKEN, [], (True, []))"
  by (simp add: toy_defs gsasl_callback_def set_gsasl_property_def dictionary_defs code_defs)

lemma format_d_52: "format_d 52 = ''52''"
  by code_simp

text \<open>
  The three outcomes on the toy library: a final response, an intermediate response and
  the failure with code 52.
\<close>

theorem do_gsasl_iteration_outcomes_witness:
  "emitted (do_gsasl_iteration toy_library toy_active None) =
     [ResponseFinal [(''ResponseBase64'', VString ''dG9rZW4='')]] \<and>
   gsasl_session (plugin (do_gsasl_iteration toy_library toy_active None)) = None \<and>
   lib (do_gsasl_iteration toy_library toy_active None) = (True, []) \<and>
   do_gsasl_iteration toy_library toy_active (Some ''Yw=='') =
     toy_active\<lparr>lib := (True, [(7, GSASL_ANONYMOUS_TOKEN, ''tok'')]),
                emitted := [Response [(''ResponseBase64'', VString ''bW9yZQ=='')]]\<rparr> \<and>
   do_gsasl_iteration toy_library toy_no_token None =
     toy_no_token\<lparr>emitted := [Error GSIGNOND_ERROR_NOT_AUTHORIZED ''Authorization error 52'']\<rparr>"
  using do_gsasl_iteration_outcomes [OF toy_step_final]
        do_gsasl_iteration_outcomes [OF toy_step_more]
        do_gsasl_iteration_outcomes [OF toy_step_failed]
  by (simp add: code_defs format_d_52 toy_defs)

lemma toy_new_eq: "toy_new = toy_fresh"
  by (simp add: toy_new_def toy_fresh_def gsignond_sasl_plugin_init_def toy_library_def
                GSASL_OK_def)

text \<open>
  Claim C3. A \<^verbatim>\<open>request\<close> without a mechanism session emits the one \<open>WrongState\<close> error
  "request_initial needs to be issued first" and changes nothing else: no step runs (the
  library state is the same) and plugin and dictionaries are untouched. A newly
  initialised plugin has no session, so this is what a \<^verbatim>\<open>request\<close> before any
  \<^verbatim>\<open>request_initial\<close> does.
\<close>

theorem request_needs_session:
  assumes "gsasl_session (plugin w) = None"
  shows "gsignond_sasl_plugin_request L w sd =
           w\<lparr>emitted := emitted w @
               [Error GSIGNOND_ERROR_WRONG_STATE ''request_initial needs to be issued first'']\<rparr> \<and>
         gsasl_session (fst (gsignond_sasl_plugin_init L l)) = None"
  using assms
  by (simp add: gsignond_sasl_plugin_request_def gsignond_plugin_error_def fst_plugin_init)

text \<open>
  A \<^verbatim>\<open>request\<close> on the plugin that the initialiser returns.
\<close>

theorem request_needs_session_witness:
  "gsignond_sasl_plugin_request toy_library toy_new 2 =
     toy_new\<lparr>emitted :=
       [Error GSIGNOND_ERROR_WRONG_STATE ''request_initial needs to be issued first'']\<rparr>"
proof -
  have "gsasl_session (plugin toy_new) = None"
    by (simp add: toy_new_eq toy_fresh_def)
  from request_needs_session [OF this, of toy_library 2]
  show ?thesis by (simp add: toy_new_eq toy_fresh_def)
qed

text \<open>
  Claim C5. \<^verbatim>\<open>cancel\<close>, in every state, emits exactly one \<open>SessionCanceled\<close> error and leaves
  the mechanism session, the retained session data, the dictionaries and the library as
  they were.
\<close>

theorem cancel_emits_session_canceled:
  "emitted (gsignond_sasl_plugin_cancel w) =
     emitted w @ [Error GSIGNOND_ERROR_SESSION_CANCELED ''Session canceled''] \<and>
   plugin (gsignond_sasl_plugin_cancel w) = plugin w \<and>
   dicts (gsignond_sasl_plugin_cancel w) = dicts w \<and>
   lib (gsignond_sasl_plugin_cancel w) = lib w \<and>
   invoke L w Cancel = gsignond_sasl_plugin_cancel w"
  by (simp add: gsignond_sasl_plugin_cancel_def gsignond_plugin_error_def)

lemma gsasl_callback_eq_resolve:
  "gsasl_callback L self st l sess prop =
     (case resolve self st prop of
        None \<Rightarrow> (GSASL_NO_CALLBACK, l)
      | Some v \<Rightarrow> (GSASL_OK, gsasl_property_set L l sess prop v))"
  by (cases "prop"; cases "session_data self")
     (simp_all add: gsasl_callback_def resolve_def set_gsasl_property_def
        gsignond_session_data_get_username_def gsignond_session_data_get_secret_def
      split: option.split)

text \<open>
  Claim C6. The callback is the lookup \<open>resolve\<close>: with a value it stores the property in
  the library session and answers \<open>GSASL_OK\<close>, without one it answers \<open>GSASL_NO_CALLBACK\<close>
  and changes nothing. Exactly the eighteen listed properties have a key, each its own;
  without retained session data, and for every property outside the table, the lookup is
  absent.
\<close>

theorem gsasl_callback_is_lookup:
  "gsasl_callback L self st l sess prop =
     (case resolve self st prop of
        None \<Rightarrow> (GSASL_NO_CALLBACK, l)
      | Some v \<Rightarrow> (GSASL_OK, gsasl_property_set L l sess prop v)) \<and>
   (resolver_key prop \<noteq> None) = (prop \<in> set listed_properties) \<and>
   length listed_properties = 18 \<and>
   distinct listed_properties \<and>
   distinct (map resolver_key listed_properties) \<and>
   resolve (self\<lparr>session_data := None\<rparr>) st prop = None \<and>
   resolve self st (GSASL_OTHER_PROPERTY n) = None"
proof -
  have "(resolver_key prop \<noteq> None) = (prop \<in> set listed_properties)"
    by (cases "prop") (simp_all add: listed_properties_def)
  moreover have "distinct listed_properties" "length listed_properties = 18"
    by (simp_all add: listed_properties_def)
  moreover have "distinct (map resolver_key listed_properties)"
    by (simp add: listed_properties_def)
  moreover have "resolve self st (GSASL_OTHER_PROPERTY n) = None"
    by (simp add: resolve_def split: option.split)
  ultimately show ?thesis
    by (simp add: gsasl_callback_eq_resolve resolve_def)
qed

lemma check_allowed_realms_eq:
  "check_allowed_realms realm host items (realm_ok, host_ok) =
     (realm_ok \<or> (case realm of None \<Rightarrow> False | Some r \<Rightarrow> r \<in> set items),
      host_ok \<or> (case host of None \<Rightarrow> False
                  | Some h \<Rightarrow> list_ex (gsignond_is_host_in_domain h) items))"
  by (induction items arbitrary: realm_ok host_ok) (auto split: option.splits)

lemma realm_flag:
  "(gsignond_session_data_get_realm st sd \<noteq> None \<and>
    \<not> fst (case gsignond_session_data_get_allowed_realms st sd of
             Some items \<Rightarrow>
               check_allowed_realms (gsignond_session_data_get_realm st sd) host items
                 (False, False)
           | None \<Rightarrow> (False, False))) =
   realm_unauthorized st sd"
  by (simp add: realm_unauthorized_def allowed_items_def check_allowed_realms_eq
           split: option.split)

lemma host_flag:
  "(gsignond_dictionary_get_string st sd ''Hostname'' \<noteq> None \<and>
    \<not> snd (case gsignond_session_data_get_allowed_realms st sd of
             Some items \<Rightarrow>
               check_allowed_realms realm (gsignond_dictionary_get_string st sd ''Hostname'')
                 items (False, False)
           | None \<Rightarrow> (False, False))) =
   host_unauthorized st sd"
  by (simp add: host_unauthorized_def allowed_items_def check_allowed_realms_eq
           split: option.split)

lemma request_initial_no_context:
  assumes "gsasl_context (plugin w) = None"
  shows "gsignond_sasl_plugin_request_initial L w sd mechanism =
           w\<lparr>emitted := emitted w @
               [Error GSIGNOND_ERROR_OPERATION_NOT_SUPPORTED
                  ''Couldn't initialize gsasl library'']\<rparr>"
  using assms by (simp add: gsignond_sasl_plugin_request_initial_def gsignond_plugin_error_def)

lemma request_initial_realm:
  assumes "gsasl_context (plugin w) = Some ctx" and "realm_unauthorized (dicts w) sd"
  shows "gsignond_sasl_plugin_request_initial L w sd mechanism =
           w\<lparr>emitted := emitted w @
               [Error GSIGNOND_ERROR_NOT_AUTHORIZED ''Unauthorized realm'']\<rparr>"
  using assms
  unfolding gsignond_sasl_plugin_request_initial_def Let_def case_prod_beta realm_flag host_flag
  by (simp add: gsignond_plugin_error_def)

lemma request_initial_host:
  assumes "gsasl_context (plugin w) = Some ctx" and "\<not> realm_unauthorized (dicts w) sd"
    and "host_unauthorized (dicts w) sd"
  shows "gsignond_sasl_plugin_request_initial L w sd mechanism =
           w\<lparr>emitted := emitted w @
               [Error GSIGNOND_ERROR_NOT_AUTHORIZED ''Unauthorized hostname'']\<rparr>"
  using assms
  unfolding gsignond_sasl_plugin_request_initial_def Let_def case_prod_beta realm_flag host_flag
  by (simp add: gsignond_plugin_error_def)

lemma request_initial_start_failed:
  assumes "gsasl_context (plugin w) = Some ctx" and "\<not> realm_unauthorized (dicts w) sd"
    and "\<not> host_unauthorized (dicts w) sd"
    and "gsasl_client_start L (lib (reset_session L w)) ctx mechanism = (res, sess, l1)"
    and "res \<noteq> GSASL_OK"
  shows "gsignond_sasl_plugin_request_initial L w sd mechanism =
           (reset_session L w)
             \<lparr>lib := l1,
              plugin := (plugin (reset_session L w))\<lparr>gsasl_session := sess\<rparr>,
              emitted := emitted w @
                [Error GSIGNOND_ERROR_OPERATION_NOT_SUPPORTED
                   (''Couldn't initialize gsasl session, error '' @ format_d res)]\<rparr>"
  using assms
  unfolding gsignond_sasl_plugin_request_initial_def Let_def case_prod_beta realm_flag host_flag
  by (simp add: gsignond_plugin_error_def emitted_reset_session)

lemma request_initial_started:
  assumes "gsasl_context (plugin w) = Some ctx" and "\<not> realm_unauthorized (dicts w) sd"
    and "\<not> host_unauthorized (dicts w) sd"
    and "gsasl_client_start L (lib (reset_session L w)) ctx mechanism = (GSASL_OK, sess, l1)"
  shows "gsignond_sasl_plugin_request_initial L w sd mechanism =
           do_gsasl_iteration L
             ((reset_session L w)
                \<lparr>lib := l1,
                 dicts := gsignond_dictionary_ref (dicts (reset_session L w)) sd,
                 plugin := (plugin (reset_session L w))
                             \<lparr>gsasl_session := sess, session_data := Some sd\<rparr>\<rparr>)
             (gsignond_dictionary_get_string
                (gsignond_dictionary_ref (dicts (reset_session L w)) sd) sd ''ChallengeBase64'')"
  using assms
  unfolding gsignond_sasl_plugin_request_initial_def Let_def case_prod_beta realm_flag host_flag
  by (simp add: gsignond_plugin_error_def)

lemma do_gsasl_iteration_emitted:
  "\<exists>output r. emitted (do_gsasl_iteration L w challenge) = emitted w @
       [ResponseFinal [(''ResponseBase64'', VString output)]] \<or>
     emitted (do_gsasl_iteration L w challenge) = emitted w @
       [Response [(''ResponseBase64'', VString output)]] \<or>
     emitted (do_gsasl_iteration L w challenge) = emitted w @
       [Error GSIGNOND_ERROR_NOT_AUTHORIZED (''Authorization error '' @ format_d r)]"
proof -
  obtain step_res out l1 where
    "gsasl_step64 L (gsasl_callback L (plugin w) (dicts w)) (lib w)
       (gsasl_session (plugin w)) challenge = (step_res, out, l1)"
    by (metis prod_cases3)
  from do_gsasl_iteration_eq [OF this] show ?thesis
    by (cases "step_res = GSASL_OK"; cases "step_res = GSASL_NEEDS_MORE")
       (auto simp: emitted_reset_session)
qed

lemma request_initial_authorized_emitted:
  assumes "gsasl_context (plugin w) = Some ctx" and "\<not> realm_unauthorized (dicts w) sd"
    and "\<not> host_unauthorized (dicts w) sd"
  shows "\<exists>output r. emitted (gsignond_sasl_plugin_request_initial L w sd mechanism) = emitted w @
       [ResponseFinal [(''ResponseBase64'', VString output)]] \<or>
     emitted (gsignond_sasl_plugin_request_initial L w sd mechanism) = emitted w @
       [Response [(''ResponseBase64'', VString output)]] \<or>
     emitted (gsignond_sasl_plugin_request_initial L w sd mechanism) = emitted w @
       [Error GSIGNOND_ERROR_NOT_AUTHORIZED (''Authorization error '' @ format_d r)] \<or>
     emitted (gsignond_sasl_plugin_request_initial L w sd mechanism) = emitted w @
       [Error GSIGNOND_ERROR_OPERATION_NOT_SUPPORTED
          (''Couldn't initialize gsasl session, error '' @ format_d r)]"
proof -
  obtain res sess l1 where
    start: "gsasl_client_start L (lib (reset_session L w)) ctx mechanism = (res, sess, l1)"
    by (metis prod_cases3)
  show ?thesis
  proof (cases "res = GSASL_OK")
    case True
    let ?w3 = "(reset_session L w)
                \<lparr>lib := l1,
                 dicts := gsignond_dictionary_ref (dicts (reset_session L w)) sd,
                 plugin := (plugin (reset_session L w))
                             \<lparr>gsasl_session := sess, session_data := Some sd\<rparr>\<rparr>"
    have "emitted ?w3 = emitted w"
      by (simp add: emitted_reset_session)
    with do_gsasl_iteration_emitted [of L ?w3]
      request_initial_started [OF assms start [unfolded True]]
    show ?thesis by metis
  next
    case False
    from request_initial_start_failed [OF assms start False] show ?thesis
      by simp blast
  qed
qed

text \<open>
  Claim C2, as the code has it. With an initialised library context, \<^verbatim>\<open>request_initial\<close>
  emits "Unauthorized realm" exactly when a realm is supplied and no entry of the allowed
  realms equals it, where an absent list of allowed realms counts as empty; it emits
  "Unauthorized hostname" exactly when the realm check passed, a hostname is supplied and
  no entry's domain contains it. With neither realm nor hostname nothing is rejected. A
  rejection emits one signal and leaves plugin, dictionaries and library untouched.
\<close>

theorem request_initial_authorization:
  assumes ctx: "gsasl_context (plugin w) = Some ctx"
  shows "(emitted (gsignond_sasl_plugin_request_initial L w sd mechanism) =
            emitted w @ [Error GSIGNOND_ERROR_NOT_AUTHORIZED ''Unauthorized realm'']) =
           realm_unauthorized (dicts w) sd \<and>
         (emitted (gsignond_sasl_plugin_request_initial L w sd mechanism) =
            emitted w @ [Error GSIGNOND_ERROR_NOT_AUTHORIZED ''Unauthorized hostname'']) =
           (\<not> realm_unauthorized (dicts w) sd \<and> host_unauthorized (dicts w) sd) \<and>
         (realm_unauthorized (dicts w) sd \<or> host_unauthorized (dicts w) sd \<longrightarrow>
            plugin (gsignond_sasl_plugin_request_initial L w sd mechanism) = plugin w \<and>
            dicts (gsignond_sasl_plugin_request_initial L w sd mechanism) = dicts w \<and>
            lib (gsignond_sasl_plugin_request_initial L w sd mechanism) = lib w \<and>
            length (emitted (gsignond_sasl_plugin_request_initial L w sd mechanism)) =
              Suc (length (emitted w))) \<and>
         (gsignond_session_data_get_realm (dicts w) sd = None \<and>
          gsignond_dictionary_get_string (dicts w) sd ''Hostname'' = None \<longrightarrow>
            \<not> realm_unauthorized (dicts w) sd \<and> \<not> host_unauthorized (dicts w) sd)"
proof -
  let ?w' = "gsignond_sasl_plugin_request_initial L w sd mechanism"
  have skipped:
    "gsignond_session_data_get_realm (dicts w) sd = None \<and>
     gsignond_dictionary_get_string (dicts w) sd ''Hostname'' = None \<longrightarrow>
       \<not> realm_unauthorized (dicts w) sd \<and> \<not> host_unauthorized (dicts w) sd"
    by (simp add: realm_unauthorized_def host_unauthorized_def)
  consider (realm) "realm_unauthorized (dicts w) sd"
    | (host) "\<not> realm_unauthorized (dicts w) sd" "host_unauthorized (dicts w) sd"
    | (pass) "\<not> realm_unauthorized (dicts w) sd" "\<not> host_unauthorized (dicts w) sd"
    by blast
  then show ?thesis
  proof cases
    case realm
    from request_initial_realm [OF ctx realm, of L mechanism] skipped realm
    show ?thesis by simp
  next
    case host
    from request_initial_host [OF ctx host, of L mechanism] skipped host
    show ?thesis by simp
  next
    case pass
    from request_initial_authorized_emitted [OF ctx pass, of L mechanism]
    have "emitted ?w' \<noteq> emitted w @ [Error GSIGNOND_ERROR_NOT_AUTHORIZED ''Unauthorized realm'']"
      and "emitted ?w' \<noteq>
             emitted w @ [Error GSIGNOND_ERROR_NOT_AUTHORIZED ''Unauthorized hostname'']"
      by auto
    with pass skipped show ?thesis by simp
  qed
qed

lemma toy_fresh_context: "gsasl_context (plugin toy_fresh) = Some 1"
  by (simp add: toy_fresh_def)

lemma toy_host_unauthorized:
  "\<not> realm_unauthorized (dicts toy_fresh) 6 \<and> host_unauthorized (dicts toy_fresh) 6"
  by (simp add: realm_unauthorized_def host_unauthorized_def allowed_items_def dictionary_defs
        toy_fresh_def toy_dicts_def gsignond_is_host_in_domain_def suffix_to_prefix)

lemma toy_authorized:
  "\<not> realm_unauthorized (dicts toy_fresh) 5 \<and> \<not> host_unauthorized (dicts toy_fresh) 5"
  by (simp add: realm_unauthorized_def host_unauthorized_def allowed_items_def dictionary_defs
        toy_fresh_def toy_dicts_def gsignond_is_host_in_domain_def suffix_to_prefix)

text \<open>
  A hostname outside both allowed domains is rejected and the world is otherwise
  unchanged; a listed realm with a hostname inside its domain is not rejected.
\<close>

theorem request_initial_authorization_witness:
  "emitted (gsignond_sasl_plugin_request_initial toy_library toy_fresh 6 ''ANONYMOUS'') =
     [Error GSIGNOND_ERROR_NOT_AUTHORIZED ''Unauthorized hostname''] \<and>
   plugin (gsignond_sasl_plugin_request_initial toy_library toy_fresh 6 ''ANONYMOUS'') =
     plugin toy_fresh \<and>
   dicts (gsignond_sasl_plugin_request_initial toy_library toy_fresh 6 ''ANONYMOUS'') =
     dicts toy_fresh \<and>
   lib (gsignond_sasl_plugin_request_initial toy_library toy_fresh 6 ''ANONYMOUS'') = (True, []) \<and>
   emitted (gsignond_sasl_plugin_request_initial toy_library toy_fresh 5 ''ANONYMOUS'') \<noteq>
     [Error GSIGNOND_ERROR_NOT_AUTHORIZED ''Unauthorized realm''] \<and>
   emitted (gsignond_sasl_plugin_request_initial toy_library toy_fresh 5 ''ANONYMOUS'') \<noteq>
     [Error GSIGNOND_ERROR_NOT_AUTHORIZED ''Unauthorized hostname'']"
  using request_initial_authorization [OF toy_fresh_context, of toy_library 6 "''ANONYMOUS''"]
        request_initial_authorization [OF toy_fresh_context, of toy_library 5 "''ANONYMOUS''"]
        toy_host_unauthorized toy_authorized
  by (simp add: toy_fresh_def)

text \<open>
  The realm error does not need a present, non-empty list of allowed realms: session data
  with a realm and no \<^verbatim>\<open>AllowedRealms\<close> entry at all is rejected.
\<close>

theorem unauthorized_realm_counterexample:
  "gsignond_session_data_get_allowed_realms (dicts toy_fresh) 3 = None \<and>
   gsignond_session_data_get_realm (dicts toy_fresh) 3 = Some ''example.org'' \<and>
   emitted (gsignond_sasl_plugin_request_initial toy_library toy_fresh 3 ''ANONYMOUS'') =
     [Error GSIGNOND_ERROR_NOT_AUTHORIZED ''Unauthorized realm'']"
proof -
  have "realm_unauthorized (dicts toy_fresh) 3"
    by (simp add: realm_unauthorized_def allowed_items_def dictionary_defs
          toy_fresh_def toy_dicts_def)
  from request_initial_realm [OF toy_fresh_context this, of toy_library "''ANONYMOUS''"]
  show ?thesis
    by (simp add: dictionary_defs toy_fresh_def toy_dicts_def)
qed

text \<open>
  Claim C4, as the code has it. On a plugin that holds no library context
  \<^verbatim>\<open>request_initial\<close> emits one \<open>OperationNotSupported\<close> error with the fixed message
  "Couldn't initialize gsasl library" and changes nothing else. On a plugin that holds a
  context, with a passed authorization check, a client start that does not answer
  \<open>GSASL_OK\<close> yields one \<open>OperationNotSupported\<close> error whose message ends with the result
  code in decimal; the library state is the one the client start left, so no step ran,
  and no session data is retained. Whether the plugin holds a context is what
  \<open>gsasl_init\<close> left in its out-parameter, whatever code it returned.
\<close>

theorem request_initial_not_supported:
  "(gsasl_context (plugin w) = None \<longrightarrow>
      gsignond_sasl_plugin_request_initial L w sd mechanism =
        w\<lparr>emitted := emitted w @
            [Error GSIGNOND_ERROR_OPERATION_NOT_SUPPORTED
               ''Couldn't initialize gsasl library'']\<rparr>) \<and>
   (gsasl_context (plugin w) = Some ctx \<and>
    \<not> realm_unauthorized (dicts w) sd \<and> \<not> host_unauthorized (dicts w) sd \<and>
    gsasl_client_start L (lib (reset_session L w)) ctx mechanism = (res, sess, l1) \<and>
    res \<noteq> GSASL_OK \<longrightarrow>
      emitted (gsignond_sasl_plugin_request_initial L w sd mechanism) =
        emitted w @
          [Error GSIGNOND_ERROR_OPERATION_NOT_SUPPORTED
             (''Couldn't initialize gsasl session, error '' @ format_d res)] \<and>
      lib (gsignond_sasl_plugin_request_initial L w sd mechanism) = l1 \<and>
      dicts (gsignond_sasl_plugin_request_initial L w sd mechanism) =
        dicts (reset_session L w) \<and>
      plugin (gsignond_sasl_plugin_request_initial L w sd mechanism) =
        (plugin w)\<lparr>session_data := None, gsasl_session := sess\<rparr>) \<and>
   gsasl_context (fst (gsignond_sasl_plugin_init L l)) = fst (snd (gsasl_init L l))"
proof (intro conjI impI)
  assume "gsasl_context (plugin w) = None"
  then show "gsignond_sasl_plugin_request_initial L w sd mechanism =
        w\<lparr>emitted := emitted w @
            [Error GSIGNOND_ERROR_OPERATION_NOT_SUPPORTED
               ''Couldn't initialize gsasl library'']\<rparr>"
    by (rule request_initial_no_context)
next
  assume a: "gsasl_context (plugin w) = Some ctx \<and>
    \<not> realm_unauthorized (dicts w) sd \<and> \<not> host_unauthorized (dicts w) sd \<and>
    gsasl_client_start L (lib (reset_session L w)) ctx mechanism = (res, sess, l1) \<and>
    res \<noteq> GSASL_OK"
  then have "gsasl_context (plugin w) = Some ctx"
    and "\<not> realm_unauthorized (dicts w) sd" and "\<not> host_unauthorized (dicts w) sd"
    and "gsasl_client_start L (lib (reset_session L w)) ctx mechanism = (res, sess, l1)"
    and "res \<noteq> GSASL_OK"
    by simp_all
  then have eq: "gsignond_sasl_plugin_request_initial L w sd mechanism =
           (reset_session L w)
             \<lparr>lib := l1,
              plugin := (plugin (reset_session L w))\<lparr>gsasl_session := sess\<rparr>,
              emitted := emitted w @
                [Error GSIGNOND_ERROR_OPERATION_NOT_SUPPORTED
                   (''Couldn't initialize gsasl session, error '' @ format_d res)]\<rparr>"
    by (rule request_initial_start_failed)
  show "emitted (gsignond_sasl_plugin_request_initial L w sd mechanism) =
        emitted w @
          [Error GSIGNOND_ERROR_OPERATION_NOT_SUPPORTED
             (''Couldn't initialize gsasl session, error '' @ format_d res)]"
    by (simp add: eq)
  show "lib (gsignond_sasl_plugin_request_initial L w sd mechanism) = l1"
    by (simp add: eq)
  show "dicts (gsignond_sasl_plugin_request_initial L w sd mechanism) =
        dicts (reset_session L w)"
    by (simp add: eq)
  show "plugin (gsignond_sasl_plugin_request_initial L w sd mechanism) =
        (plugin w)\<lparr>session_data := None, gsasl_session := sess\<rparr>"
    by (simp add: eq plugin_reset_session)
next
  show "gsasl_context (fst (gsignond_sasl_plugin_init L l)) = fst (snd (gsasl_init L l))"
    by (simp add: fst_plugin_init)
qed

lemma format_d_2: "format_d 2 = ''2''"
  by code_simp

text \<open>
  Both cases on the toy library: a plugin whose library failed to initialise and left no
  context, and the mechanism name \<^verbatim>\<open>PLAIN\<close> that the toy library does not know (code 2).
\<close>

theorem request_initial_not_supported_witness:
  "gsignond_sasl_plugin_request_initial toy_library toy_uninitialised 1 ''ANONYMOUS'' =
     toy_uninitialised\<lparr>emitted :=
       [Error GSIGNOND_ERROR_OPERATION_NOT_SUPPORTED ''Couldn't initialize gsasl library'']\<rparr> \<and>
   emitted (gsignond_sasl_plugin_request_initial toy_library toy_fresh 1 ''PLAIN'') =
     [Error GSIGNOND_ERROR_OPERATION_NOT_SUPPORTED
        ''Couldn't initialize gsasl session, error 2''] \<and>
   lib (gsignond_sasl_plugin_request_initial toy_library toy_fresh 1 ''PLAIN'') = (True, []) \<and>
   plugin (gsignond_sasl_plugin_request_initial toy_library toy_fresh 1 ''PLAIN'') =
     plugin toy_fresh"
proof -
  have none: "gsasl_context (plugin toy_uninitialised) = None"
    by (simp add: toy_uninitialised_def fst_plugin_init)
  have pass: "\<not> realm_unauthorized (dicts toy_fresh) 1 \<and> \<not> host_unauthorized (dicts toy_fresh) 1"
    by (simp add: realm_unauthorized_def host_unauthorized_def dictionary_defs
          toy_fresh_def toy_dicts_def)
  have start: "gsasl_client_start toy_library (lib (reset_session toy_library toy_fresh)) 1
                 ''PLAIN'' = (GSASL_UNKNOWN_MECHANISM, None, (True, []))"
    by (simp add: lib_reset_session toy_fresh_def toy_library_def)
  have bad: "GSASL_UNKNOWN_MECHANISM \<noteq> GSASL_OK"
    by (simp add: code_defs)
  from request_initial_not_supported
         [where w = toy_uninitialised and L = toy_library and sd = 1
            and mechanism = "''ANONYMOUS''"]
       request_initial_not_supported
         [where w = toy_fresh and L = toy_library and sd = 1 and mechanism = "''PLAIN''"
            and ctx = 1 and res = GSASL_UNKNOWN_MECHANISM and sess = None and ?l1.0 = "(True, [])"]
       none pass start bad toy_fresh_context
  show ?thesis
    by (simp add: toy_uninitialised_def toy_fresh_def format_d_2 GSASL_UNKNOWN_MECHANISM_def)
qed

text \<open>
  When the library failed to initialise (here with code 7) and left no context, the
  message of the error has no digit in it, so it does not include any numeric code.
\<close>

theorem library_error_code_counterexample:
  "gsasl_init (toy_library\<lparr>gsasl_init := (\<lambda>l. (GSASL_MALLOC_ERROR, None, l))\<rparr>) (False, []) =
     (7, None, (False, [])) \<and>
   emitted (gsignond_sasl_plugin_request_initial toy_library toy_uninitialised 1 ''ANONYMOUS'') =
     [Error GSIGNOND_ERROR_OPERATION_NOT_SUPPORTED ''Couldn't initialize gsasl library''] \<and>
   set ''Couldn't initialize gsasl library'' \<inter> set ''0123456789'' = {}"
proof -
  have "gsasl_context (plugin toy_uninitialised) = None"
    by (simp add: toy_uninitialised_def fst_plugin_init)
  from request_initial_no_context [OF this, of toy_library 1 "''ANONYMOUS''"]
  show ?thesis
    by (simp add: toy_uninitialised_def GSASL_MALLOC_ERROR_def)
qed

lemma do_gsasl_iteration_cases:
  obtains
    (final) out l1 where
      "do_gsasl_iteration L w challenge =
         (reset_session L (w\<lparr>lib := l1\<rparr>))
           \<lparr>emitted := emitted w @ [ResponseFinal [(''ResponseBase64'', VString out)]]\<rparr>"
  | (more) out l1 where
      "do_gsasl_iteration L w challenge =
         w\<lparr>lib := l1, emitted := emitted w @ [Response [(''ResponseBase64'', VString out)]]\<rparr>"
  | (failed) step_res l1 where
      "do_gsasl_iteration L w challenge =
         w\<lparr>lib := l1,
           emitted := emitted w @
             [Error GSIGNOND_ERROR_NOT_AUTHORIZED
                (''Authorization error '' @ format_d step_res)]\<rparr>"
proof -
  obtain step_res out l1 where
    "gsasl_step64 L (gsasl_callback L (plugin w) (dicts w)) (lib w)
       (gsasl_session (plugin w)) challenge = (step_res, out, l1)"
    by (metis prod_cases3)
  from do_gsasl_iteration_eq [OF this] final more failed show ?thesis
    by (cases "step_res = GSASL_OK"; cases "step_res = GSASL_NEEDS_MORE") simp_all
qed

lemma request_initial_cases:
  obtains
    (no_context)
      "gsasl_context (plugin w) = None"
      "gsignond_sasl_plugin_request_initial L w sd mechanism =
         w\<lparr>emitted := emitted w @
             [Error GSIGNOND_ERROR_OPERATION_NOT_SUPPORTED
                ''Couldn't initialize gsasl library'']\<rparr>"
  | (realm)
      "gsignond_sasl_plugin_request_initial L w sd mechanism =
         w\<lparr>emitted := emitted w @
             [Error GSIGNOND_ERROR_NOT_AUTHORIZED ''Unauthorized realm'']\<rparr>"
  | (host)
      "gsignond_sasl_plugin_request_initial L w sd mechanism =
         w\<lparr>emitted := emitted w @
             [Error GSIGNOND_ERROR_NOT_AUTHORIZED ''Unauthorized hostname'']\<rparr>"
  | (start_failed) ctx res sess l1 where
      "gsasl_client_start L (lib (reset_session L w)) ctx mechanism = (res, sess, l1)"
      "res \<noteq> GSASL_OK"
      "gsignond_sasl_plugin_request_initial L w sd mechanism =
         (reset_session L w)
           \<lparr>lib := l1,
            plugin := (plugin (reset_session L w))\<lparr>gsasl_session := sess\<rparr>,
            emitted := emitted w @
              [Error GSIGNOND_ERROR_OPERATION_NOT_SUPPORTED
                 (''Couldn't initialize gsasl session, error '' @ format_d res)]\<rparr>"
  | (started) ctx sess l1 where
      "gsasl_client_start L (lib (reset_session L w)) ctx mechanism = (GSASL_OK, sess, l1)"
      "gsignond_sasl_plugin_request_initial L w sd mechanism =
         do_gsasl_iteration L
           ((reset_session L w)
              \<lparr>lib := l1,
               dicts := gsignond_dictionary_ref (dicts (reset_session L w)) sd,
               plugin := (plugin (reset_session L w))
                           \<lparr>gsasl_session := sess, session_data := Some sd\<rparr>\<rparr>)
           (gsignond_dictionary_get_string
              (gsignond_dictionary_ref (dicts (reset_session L w)) sd) sd ''ChallengeBase64'')"
proof (cases "gsasl_context (plugin w)")
  case None
  with no_context request_initial_no_context show ?thesis by blast
next
  case (Some ctx)
  obtain res sess l1 where
    start: "gsasl_client_start L (lib (reset_session L w)) ctx mechanism = (res, sess, l1)"
    by (metis prod_cases3)
  consider (a) "realm_unauthorized (dicts w) sd"
    | (b) "\<not> realm_unauthorized (dicts w) sd" "host_unauthorized (dicts w) sd"
    | (c) "\<not> realm_unauthorized (dicts w) sd" "\<not> host_unauthorized (dicts w) sd"
          "res \<noteq> GSASL_OK"
    | (d) "\<not> realm_unauthorized (dicts w) sd" "\<not> host_unauthorized (dicts w) sd"
          "res = GSASL_OK"
    by blast
  then show ?thesis
  proof cases
    case a
    from request_initial_realm [OF Some a] realm show ?thesis by blast
  next
    case b
    from request_initial_host [OF Some b] host show ?thesis by blast
  next
    case c
    from request_initial_start_failed [OF Some c(1,2) start c(3)] start_failed start c(3)
    show ?thesis by blast
  next
    case d
    from request_initial_started [OF Some d(1,2) start [unfolded d(3)]] started start d(3)
    show ?thesis by blast
  qed
qed

lemma gsasl_context_do_gsasl_iteration:
  "gsasl_context (plugin (do_gsasl_iteration L w challenge)) = gsasl_context (plugin w)"
  by (cases rule: do_gsasl_iteration_cases [of L w challenge])
     (simp_all add: plugin_reset_session)

lemma gsasl_context_request_initial:
  "gsasl_context (plugin (gsignond_sasl_plugin_request_initial L w sd mechanism)) =
     gsasl_context (plugin w)"
  by (cases rule: request_initial_cases [of w L sd mechanism])
     (simp_all add: plugin_reset_session gsasl_context_do_gsasl_iteration)

lemma gsasl_context_invoke:
  "gsasl_context (plugin (invoke L w call)) = gsasl_context (plugin w)"
  by (cases call)
     (simp_all add: gsignond_sasl_plugin_cancel_def gsignond_plugin_error_def
        gsignond_sasl_plugin_request_def gsignond_sasl_plugin_user_action_finished_def
        gsignond_sasl_plugin_refresh_def gsasl_context_request_initial
        gsasl_context_do_gsasl_iteration)

lemma gsasl_context_invokes:
  "gsasl_context (plugin (foldl (invoke L) w calls)) = gsasl_context (plugin w)"
  by (induction calls arbitrary: w) (simp_all add: gsasl_context_invoke)

text \<open>
  Claim C8, as the code has it. The \<^verbatim>\<open>type\<close> property is "sasl" when the plugin holds a
  library context and the empty string when it holds none. Which of the two is settled by
  the initialiser, which keeps whatever \<open>gsasl_init\<close> left in its out-parameter, whatever
  code it returned; no call of the plugin interface, and no sequence of calls, changes it.
\<close>

theorem type_property:
  "get_property_type (plugin w) = (if gsasl_context (plugin w) = None then [] else ''sasl'') \<and>
   get_property_type (plugin (invoke L w call)) = get_property_type (plugin w) \<and>
   get_property_type (plugin (foldl (invoke L) w calls)) = get_property_type (plugin w) \<and>
   gsasl_context (fst (gsignond_sasl_plugin_init L l)) = fst (snd (gsasl_init L l)) \<and>
   get_property_type (fst (gsignond_sasl_plugin_init L l)) =
     (if fst (snd (gsasl_init L l)) = None then [] else ''sasl'')"
  by (simp add: get_property_type_def gsasl_context_invoke gsasl_context_invokes fst_plugin_init)

text \<open>
  A plugin whose library failed to initialise and left no context does not report the
  type "sasl".
\<close>

theorem type_property_counterexample:
  "get_property_type (plugin toy_uninitialised) \<noteq> ''sasl''"
  by (simp add: get_property_type_def toy_uninitialised_def fst_plugin_init)

lemma resolve_retained:
  assumes "case session_data self of None \<Rightarrow> True | Some a \<Rightarrow> st2 a = st a"
  shows "resolve self st2 prop = resolve self st prop"
proof (cases "session_data self")
  case None
  then show ?thesis by (simp add: resolve_def)
next
  case (Some a)
  with assms have "st2 a = st a" by simp
  then have "gsignond_dictionary_get_string st2 a = gsignond_dictionary_get_string st a"
    by (intro ext)
       (simp add: gsignond_dictionary_get_string_def gsignond_dictionary_get_def)
  with Some show ?thesis
    by (simp add: resolve_def split: option.split)
qed

lemma gsasl_callback_retained:
  assumes "case session_data self of None \<Rightarrow> True | Some a \<Rightarrow> st2 a = st a"
  shows "gsasl_callback L self st2 = gsasl_callback L self st"
  by (intro ext) (simp add: gsasl_callback_eq_resolve resolve_retained [OF assms])

lemma do_gsasl_iteration_retained:
  assumes "plugin w2 = plugin w" and "lib w2 = lib w" and "emitted w2 = emitted w"
    and "case session_data (plugin w) of None \<Rightarrow> True | Some a \<Rightarrow> dicts w2 a = dicts w a"
  shows "emitted (do_gsasl_iteration L w2 challenge) = emitted (do_gsasl_iteration L w challenge) \<and>
         plugin (do_gsasl_iteration L w2 challenge) = plugin (do_gsasl_iteration L w challenge) \<and>
         lib (do_gsasl_iteration L w2 challenge) = lib (do_gsasl_iteration L w challenge)"
proof -
  obtain step_res out l1 where
    step: "gsasl_step64 L (gsasl_callback L (plugin w) (dicts w)) (lib w)
             (gsasl_session (plugin w)) challenge = (step_res, out, l1)"
    by (metis prod_cases3)
  have "gsasl_callback L (plugin w2) (dicts w2) = gsasl_callback L (plugin w) (dicts w)"
    using assms(1,4) by (simp add: gsasl_callback_retained)
  with step assms(1,2) have
    step2: "gsasl_step64 L (gsasl_callback L (plugin w2) (dicts w2)) (lib w2)
              (gsasl_session (plugin w2)) challenge = (step_res, out, l1)"
    by simp
  show ?thesis
    using assms(1,3)
    by (simp add: do_gsasl_iteration_eq [OF step] do_gsasl_iteration_eq [OF step2]
                  reset_session_fields split: option.split)
qed

lemma session_data_do_gsasl_iteration:
  "case last (emitted (do_gsasl_iteration L w challenge)) of
     ResponseFinal response \<Rightarrow>
       session_data (plugin (do_gsasl_iteration L w challenge)) = None \<and>
       gsasl_session (plugin (do_gsasl_iteration L w challenge)) = None
   | _ \<Rightarrow> plugin (do_gsasl_iteration L w challenge) = plugin w"
  by (cases rule: do_gsasl_iteration_cases [of L w challenge])
     (simp_all add: plugin_reset_session)

lemma request_retained:
  assumes "plugin w2 = plugin w" and "lib w2 = lib w" and "emitted w2 = emitted w"
    and "case session_data (plugin w) of None \<Rightarrow> True | Some a \<Rightarrow> dicts w2 a = dicts w a"
    and "gsignond_dictionary_get_string (dicts w2) sd2 ''ChallengeBase64'' =
         gsignond_dictionary_get_string (dicts w) sd ''ChallengeBase64''"
  shows "emitted (gsignond_sasl_plugin_request L w2 sd2) =
           emitted (gsignond_sasl_plugin_request L w sd) \<and>
         plugin (gsignond_sasl_plugin_request L w2 sd2) =
           plugin (gsignond_sasl_plugin_request L w sd) \<and>
         lib (gsignond_sasl_plugin_request L w2 sd2) =
           lib (gsignond_sasl_plugin_request L w sd)"
proof (cases "gsasl_session (plugin w)")
  case None
  with assms(1-3) show ?thesis
    by (simp add: gsignond_sasl_plugin_request_def gsignond_plugin_error_def)
next
  case (Some s)
  let ?ch = "gsignond_dictionary_get_string (dicts w) sd ''ChallengeBase64''"
  have eq: "gsignond_sasl_plugin_request L w sd = do_gsasl_iteration L w ?ch"
    using Some by (simp add: gsignond_sasl_plugin_request_def)
  have eq2: "gsignond_sasl_plugin_request L w2 sd2 = do_gsasl_iteration L w2 ?ch"
    using Some assms(1,5) by (simp add: gsignond_sasl_plugin_request_def)
  show ?thesis
    unfolding eq eq2 by (rule do_gsasl_iteration_retained [OF assms(1-4)])
qed

lemma request_pointer:
  "case last (emitted (gsignond_sasl_plugin_request L w sd)) of
     ResponseFinal response \<Rightarrow>
       session_data (plugin (gsignond_sasl_plugin_request L w sd)) = None \<and>
       gsasl_session (plugin (gsignond_sasl_plugin_request L w sd)) = None
   | _ \<Rightarrow> plugin (gsignond_sasl_plugin_request L w sd) = plugin w"
proof (cases "gsasl_session (plugin w)")
  case None
  then show ?thesis
    by (simp add: gsignond_sasl_plugin_request_def gsignond_plugin_error_def)
next
  case (Some s)
  let ?ch = "gsignond_dictionary_get_string (dicts w) sd ''ChallengeBase64''"
  have eq: "gsignond_sasl_plugin_request L w sd = do_gsasl_iteration L w ?ch"
    using Some by (simp add: gsignond_sasl_plugin_request_def)
  show ?thesis
    unfolding eq by (rule session_data_do_gsasl_iteration)
qed

text \<open>
  Claim C7, as the code has it. Take two calls of \<^verbatim>\<open>request\<close> that start from the same
  plugin, library state and signals, with stores that hold the same content at the retained
  session data, and whose arguments hold the same string under \<^verbatim>\<open>ChallengeBase64\<close>. They
  emit the same signals and leave the same plugin and library state, whatever else the two
  argument dictionaries hold. In particular, when the argument is not the retained
  dictionary, replacing its content by any other with the same challenge changes nothing
  of that; when the argument is the retained dictionary itself, its content is what the
  lookups read, and the hypothesis on the retained content says so. The retained pointer
  is never replaced by the argument: after a final response it is cleared together with
  the session, after any other signal the plugin is as it was.
\<close>

theorem request_reads_only_challenge:
  assumes "plugin w2 = plugin w" and "lib w2 = lib w" and "emitted w2 = emitted w"
    and "case session_data (plugin w) of None \<Rightarrow> True | Some a \<Rightarrow> dicts w2 a = dicts w a"
    and "gsignond_dictionary_get_string (dicts w2) sd2 ''ChallengeBase64'' =
         gsignond_dictionary_get_string (dicts w) sd ''ChallengeBase64''"
  shows "emitted (gsignond_sasl_plugin_request L w2 sd2) =
           emitted (gsignond_sasl_plugin_request L w sd) \<and>
         plugin (gsignond_sasl_plugin_request L w2 sd2) =
           plugin (gsignond_sasl_plugin_request L w sd) \<and>
         lib (gsignond_sasl_plugin_request L w2 sd2) =
           lib (gsignond_sasl_plugin_request L w sd) \<and>
         (case last (emitted (gsignond_sasl_plugin_request L w sd)) of
            ResponseFinal response \<Rightarrow>
              session_data (plugin (gsignond_sasl_plugin_request L w sd)) = None \<and>
              gsasl_session (plugin (gsignond_sasl_plugin_request L w sd)) = None
          | _ \<Rightarrow> plugin (gsignond_sasl_plugin_request L w sd) = plugin w) \<and>
         (session_data (plugin w) \<noteq> Some sd \<and>
          gsignond_dictionary_get_string ((dicts w)(sd \<mapsto> d)) sd ''ChallengeBase64'' =
            gsignond_dictionary_get_string (dicts w) sd ''ChallengeBase64'' \<longrightarrow>
            emitted (gsignond_sasl_plugin_request L (w\<lparr>dicts := (dicts w)(sd \<mapsto> d)\<rparr>) sd) =
              emitted (gsignond_sasl_plugin_request L w sd) \<and>
            plugin (gsignond_sasl_plugin_request L (w\<lparr>dicts := (dicts w)(sd \<mapsto> d)\<rparr>) sd) =
              plugin (gsignond_sasl_plugin_request L w sd) \<and>
            lib (gsignond_sasl_plugin_request L (w\<lparr>dicts := (dicts w)(sd \<mapsto> d)\<rparr>) sd) =
              lib (gsignond_sasl_plugin_request L w sd))"
proof -
  have other:
    "emitted (gsignond_sasl_plugin_request L (w\<lparr>dicts := (dicts w)(sd \<mapsto> d)\<rparr>) sd) =
       emitted (gsignond_sasl_plugin_request L w sd) \<and>
     plugin (gsignond_sasl_plugin_request L (w\<lparr>dicts := (dicts w)(sd \<mapsto> d)\<rparr>) sd) =
       plugin (gsignond_sasl_plugin_request L w sd) \<and>
     lib (gsignond_sasl_plugin_request L (w\<lparr>dicts := (dicts w)(sd \<mapsto> d)\<rparr>) sd) =
       lib (gsignond_sasl_plugin_request L w sd)"
    if "session_data (plugin w) \<noteq> Some sd"
      and "gsignond_dictionary_get_string ((dicts w)(sd \<mapsto> d)) sd ''ChallengeBase64'' =
           gsignond_dictionary_get_string (dicts w) sd ''ChallengeBase64''"
  proof (rule request_retained)
    show "case session_data (plugin w) of None \<Rightarrow> True
          | Some a \<Rightarrow> dicts (w\<lparr>dicts := (dicts w)(sd \<mapsto> d)\<rparr>) a = dicts w a"
      using that(1) by (auto split: option.split)
    show "gsignond_dictionary_get_string (dicts (w\<lparr>dicts := (dicts w)(sd \<mapsto> d)\<rparr>)) sd
            ''ChallengeBase64'' =
          gsignond_dictionary_get_string (dicts w) sd ''ChallengeBase64''"
      using that(2) by simp
  qed simp_all
  with request_retained [OF assms, of L] request_pointer [of L w sd]
  show ?thesis by blast
qed

text \<open>
  A \<^verbatim>\<open>request\<close> whose dictionary carries other credentials beside the challenge behaves
  as the one without them: the token of the retained session data is used.
\<close>

theorem request_reads_only_challenge_witness:
  "emitted (gsignond_sasl_plugin_request toy_library toy_changed 2) =
     [Response [(''ResponseBase64'', VString ''bW9yZQ=='')]] \<and>
   lib (gsignond_sasl_plugin_request toy_library toy_changed 2) =
     (True, [(7, GSASL_ANONYMOUS_TOKEN, ''tok'')]) \<and>
   plugin (gsignond_sasl_plugin_request toy_library toy_changed 2) = plugin toy_active"
proof -
  have a: "plugin toy_changed = plugin toy_active" "lib toy_changed = lib toy_active"
    "emitted toy_changed = emitted toy_active"
    by (simp_all add: toy_changed_def)
  have b: "case session_data (plugin toy_active) of None \<Rightarrow> True
           | Some a \<Rightarrow> dicts toy_changed a = dicts toy_active a"
    by (simp add: toy_changed_def toy_active_def)
  have c: "gsignond_dictionary_get_string (dicts toy_changed) 2 ''ChallengeBase64'' =
           gsignond_dictionary_get_string (dicts toy_active) 2 ''ChallengeBase64''"
    by (simp add: toy_changed_def toy_active_def toy_dicts_def dictionary_defs)
  have d: "gsignond_sasl_plugin_request toy_library toy_active 2 =
             toy_active\<lparr>lib := (True, [(7, GSASL_ANONYMOUS_TOKEN, ''tok'')]),
                        emitted := [Response [(''ResponseBase64'', VString ''bW9yZQ=='')]]\<rparr>"
  proof -
    have "gsignond_dictionary_get_string (dicts toy_active) 2 ''ChallengeBase64'' = Some ''Yw==''"
      by (simp add: toy_active_def toy_dicts_def dictionary_defs)
    moreover have "gsasl_session (plugin toy_active) \<noteq> None"
      by (simp add: toy_active_def)
    ultimately show ?thesis
      using do_gsasl_iteration_eq [OF toy_step_more]
      by (simp add: gsignond_sasl_plugin_request_def code_defs toy_active_def)
  qed
  from request_reads_only_challenge [OF a b c, of toy_library] show ?thesis
    by (simp add: d)
qed

text \<open>
  The claim fails twice. The retained pointer does change in a \<^verbatim>\<open>request\<close>: when the
  step completes the negotiation, the session reset clears it. And credentials in the
  argument do count when the argument is the retained dictionary, as in the repository's
  tests: two worlds that differ only in the token held by that dictionary hand different
  tokens to the library.
\<close>

theorem retained_pointer_counterexample:
  "session_data (plugin (gsignond_sasl_plugin_request toy_library toy_active 4)) \<noteq>
   session_data (plugin toy_active) \<and>
   plugin toy_aliased_changed = plugin toy_aliased \<and>
   lib toy_aliased_changed = lib toy_aliased \<and>
   emitted toy_aliased_changed = emitted toy_aliased \<and>
   session_data (plugin toy_aliased) = Some 9 \<and>
   gsignond_dictionary_get_string (dicts toy_aliased_changed) 9 ''ChallengeBase64'' =
     gsignond_dictionary_get_string (dicts toy_aliased) 9 ''ChallengeBase64'' \<and>
   lib (gsignond_sasl_plugin_request toy_library toy_aliased 9) =
     (True, [(7, GSASL_ANONYMOUS_TOKEN, ''tok'')]) \<and>
   lib (gsignond_sasl_plugin_request toy_library toy_aliased_changed 9) =
     (True, [(7, GSASL_ANONYMOUS_TOKEN, ''intruder'')])"
proof -
  have "gsignond_dictionary_get_string (dicts toy_active) 4 ''ChallengeBase64'' = None"
    by (simp add: toy_active_def toy_dicts_def dictionary_defs)
  moreover have "gsasl_session (plugin toy_active) \<noteq> None"
    by (simp add: toy_active_def)
  ultimately have pointer:
    "session_data (plugin (gsignond_sasl_plugin_request toy_library toy_active 4)) \<noteq>
     session_data (plugin toy_active)"
    using do_gsasl_iteration_eq [OF toy_step_final]
    by (simp add: gsignond_sasl_plugin_request_def code_defs plugin_reset_session toy_active_def)
  have step: "gsasl_step64 toy_library
                (gsasl_callback toy_library (plugin toy_aliased) (dicts toy_aliased))
                (lib toy_aliased) (gsasl_session (plugin toy_aliased)) (Some ''Yw=='') =
              (GSASL_NEEDS_MORE, ''bW9yZQ=='', (True, [(7, GSASL_ANONYMOUS_TOKEN, ''tok'')]))"
    by (simp add: toy_aliased_def toy_library_def toy_dicts_def gsasl_callback_def
          set_gsasl_property_def dictionary_defs code_defs)
  have step2: "gsasl_step64 toy_library
                 (gsasl_callback toy_library (plugin toy_aliased_changed)
                    (dicts toy_aliased_changed))
                 (lib toy_aliased_changed) (gsasl_session (plugin toy_aliased_changed))
                 (Some ''Yw=='') =
               (GSASL_NEEDS_MORE, ''bW9yZQ=='',
                (True, [(7, GSASL_ANONYMOUS_TOKEN, ''intruder'')]))"
    by (simp add: toy_aliased_changed_def toy_aliased_def toy_library_def toy_dicts_def
          gsasl_callback_def set_gsasl_property_def dictionary_defs code_defs)
  have ch: "gsignond_dictionary_get_string (dicts toy_aliased) 9 ''ChallengeBase64'' = Some ''Yw==''"
    "gsignond_dictionary_get_string (dicts toy_aliased_changed) 9 ''ChallengeBase64'' =
       Some ''Yw==''"
    by (simp_all add: toy_aliased_changed_def toy_aliased_def toy_dicts_def dictionary_defs)
  have sess: "gsasl_session (plugin toy_aliased) = Some 7"
    "gsasl_session (plugin toy_aliased_changed) = Some 7"
    by (simp_all add: toy_aliased_changed_def toy_aliased_def)
  have "lib (gsignond_sasl_plugin_request toy_library toy_aliased 9) =
          (True, [(7, GSASL_ANONYMOUS_TOKEN, ''tok'')])"
    using do_gsasl_iteration_eq [OF step] ch(1) sess(1)
    by (simp add: gsignond_sasl_plugin_request_def code_defs)
  moreover have "lib (gsignond_sasl_plugin_request toy_library toy_aliased_changed 9) =
          (True, [(7, GSASL_ANONYMOUS_TOKEN, ''intruder'')])"
    using do_gsasl_iteration_eq [OF step2] ch(2) sess(2)
    by (simp add: gsignond_sasl_plugin_request_def code_defs)
  ultimately show ?thesis
    using pointer ch
    by (simp add: toy_aliased_changed_def toy_aliased_def)
qed

lemma unref_apply:
  "gsignond_dictionary_unref st b a =
     (if a = b then
        (case st a of
           None \<Rightarrow> None
         | Some d \<Rightarrow> if ref_count d \<le> 1 then None else Some (d\<lparr>ref_count := ref_count d - 1\<rparr>))
      else st a)"
  by (simp add: gsignond_dictionary_unref_def split: option.split)

lemma ref_apply:
  "gsignond_dictionary_ref st b a =
     (if a = b then map_option (\<lambda>d. d\<lparr>ref_count := Suc (ref_count d)\<rparr>) (st a) else st a)"
  by (simp add: gsignond_dictionary_ref_def split: option.split)

lemma dicts_do_gsasl_iteration:
  "dicts (do_gsasl_iteration L w challenge) = dicts w \<or>
   dicts (do_gsasl_iteration L w challenge) = dicts (reset_session L w)"
  by (cases rule: do_gsasl_iteration_cases [of L w challenge])
     (simp_all add: dicts_reset_session split: option.split)

lemma dicts_request_initial:
  "dicts (gsignond_sasl_plugin_request_initial L w sd mechanism) = dicts w \<or>
   dicts (gsignond_sasl_plugin_request_initial L w sd mechanism) = dicts (reset_session L w) \<or>
   dicts (gsignond_sasl_plugin_request_initial L w sd mechanism) =
     gsignond_dictionary_ref (dicts (reset_session L w)) sd \<or>
   dicts (gsignond_sasl_plugin_request_initial L w sd mechanism) =
     gsignond_dictionary_unref (gsignond_dictionary_ref (dicts (reset_session L w)) sd) sd"
proof (cases rule: request_initial_cases [of w L sd mechanism])
  case (started ctx sess l1)
  let ?w3 = "(reset_session L w)
              \<lparr>lib := l1,
               dicts := gsignond_dictionary_ref (dicts (reset_session L w)) sd,
               plugin := (plugin (reset_session L w))
                           \<lparr>gsasl_session := sess, session_data := Some sd\<rparr>\<rparr>"
  have "dicts (reset_session L ?w3) =
          gsignond_dictionary_unref (gsignond_dictionary_ref (dicts (reset_session L w)) sd) sd"
    by (simp add: dicts_reset_session)
  with dicts_do_gsasl_iteration [of L ?w3] started(2) show ?thesis
    by auto
qed simp_all

lemma dicts_invoke:
  "\<exists>sd. dicts (invoke L w call) = dicts w \<or>
     dicts (invoke L w call) = dicts (reset_session L w) \<or>
     dicts (invoke L w call) = gsignond_dictionary_ref (dicts (reset_session L w)) sd \<or>
     dicts (invoke L w call) =
       gsignond_dictionary_unref (gsignond_dictionary_ref (dicts (reset_session L w)) sd) sd"
proof (cases call)
  case (RequestInitial sd mechanism)
  with dicts_request_initial [of L w sd mechanism] show ?thesis by auto
next
  case (Request sd)
  with dicts_do_gsasl_iteration [of L w] show ?thesis
    by (auto simp: gsignond_sasl_plugin_request_def gsignond_plugin_error_def)
qed (simp_all add: gsignond_sasl_plugin_cancel_def gsignond_plugin_error_def
       gsignond_sasl_plugin_user_action_finished_def gsignond_sasl_plugin_refresh_def)

lemma store_forms_entries:
  assumes "st' = st \<or> st' = R \<or> st' = gsignond_dictionary_ref R sd \<or>
           st' = gsignond_dictionary_unref (gsignond_dictionary_ref R sd) sd"
    and "R = (case p of Some a0 \<Rightarrow> gsignond_dictionary_unref st a0 | None \<Rightarrow> st)"
    and "st' a = Some d'"
  shows "\<exists>d. st a = Some d \<and> entries d' = entries d"
  using assms
  by (auto simp: unref_apply ref_apply split: option.splits if_splits)

lemma store_forms_live:
  assumes "st' = st \<or> st' = R \<or> st' = gsignond_dictionary_ref R sd \<or>
           st' = gsignond_dictionary_unref (gsignond_dictionary_ref R sd) sd"
    and "R = (case p of Some a0 \<Rightarrow> gsignond_dictionary_unref st a0 | None \<Rightarrow> st)"
    and "st a = Some d" and "(if p = Some a then 1 else 0) < ref_count d"
  shows "\<exists>d'. st' a = Some d' \<and> entries d' = entries d"
  using assms
  by (auto simp: unref_apply ref_apply split: option.splits if_splits)

text \<open>
  Claim C9. No call of the plugin interface writes to a dictionary: one that exists after
  the call existed before with the same entries, and a dictionary to which the caller
  holds a reference of its own (a count above the one reference the plugin may hold)
  still exists after the call with the same entries. Only reference counts change. The
  callback answers with a result code and a library state and has no store to return.
\<close>

theorem session_data_never_mutated:
  "(dicts (invoke L w call) a = Some d' \<longrightarrow>
      (\<exists>d. dicts w a = Some d \<and> entries d' = entries d)) \<and>
   (dicts w a = Some d \<and> (if session_data (plugin w) = Some a then 1 else 0) < ref_count d \<longrightarrow>
      (\<exists>d'. dicts (invoke L w call) a = Some d' \<and> entries d' = entries d))"
proof -
  obtain sd where forms:
    "dicts (invoke L w call) = dicts w \<or>
     dicts (invoke L w call) = dicts (reset_session L w) \<or>
     dicts (invoke L w call) = gsignond_dictionary_ref (dicts (reset_session L w)) sd \<or>
     dicts (invoke L w call) =
       gsignond_dictionary_unref (gsignond_dictionary_ref (dicts (reset_session L w)) sd) sd"
    using dicts_invoke by blast
  have R: "dicts (reset_session L w) =
             (case session_data (plugin w) of
                Some a0 \<Rightarrow> gsignond_dictionary_unref (dicts w) a0
              | None \<Rightarrow> dicts w)"
    by (rule dicts_reset_session)
  from store_forms_entries [OF forms R] store_forms_live [OF forms R]
  show ?thesis by blast
qed

text \<open>
  Starting again with the session data that is already retained, and finishing at once:
  the dictionary loses the plugin's reference and keeps its one entry.
\<close>

theorem session_data_never_mutated_witness:
  "map_option entries
     (dicts (invoke toy_library toy_active (RequestInitial 1 ''ANONYMOUS'')) 1) =
   Some [''AnonymousToken'' \<mapsto> VString ''tok'']"
proof -
  have live: "dicts toy_active 1 =
                Some \<lparr>ref_count = 2, entries = [''AnonymousToken'' \<mapsto> VString ''tok'']\<rparr> \<and>
              (if session_data (plugin toy_active) = Some 1 then 1 else 0)
                < ref_count \<lparr>ref_count = 2, entries = [''AnonymousToken'' \<mapsto> VString ''tok'']\<rparr>"
    by (simp add: toy_active_def toy_dicts_def)
  from session_data_never_mutated
         [where w = toy_active and L = toy_library and a = 1
            and call = "RequestInitial 1 ''ANONYMOUS''"
            and d = "\<lparr>ref_count = 2, entries = [''AnonymousToken'' \<mapsto> VString ''tok'']\<rparr>"]
       live
  show ?thesis by auto
qed

lemma client_start_contractD:
  assumes "client_start_contract L"
    and "gsasl_client_start L l ctx mechanism = (res, sess, l1)"
  shows "(res = GSASL_OK) = (sess \<noteq> None)"
  using assms unfolding client_start_contract_def
  by (metis (mono_tags, lifting) case_prod_conv)

lemma session_inv_do_gsasl_iteration:
  assumes "session_inv (plugin w)"
  shows "session_inv (plugin (do_gsasl_iteration L w challenge))"
  using assms
  by (cases rule: do_gsasl_iteration_cases [of L w challenge])
     (simp_all add: plugin_reset_session session_inv_def)

lemma session_inv_request_initial:
  assumes "client_start_contract L" and "session_inv (plugin w)"
  shows "session_inv (plugin (gsignond_sasl_plugin_request_initial L w sd mechanism))"
proof (cases rule: request_initial_cases [of w L sd mechanism])
  case (start_failed ctx res sess l1)
  with client_start_contractD [OF assms(1) start_failed(1)] show ?thesis
    by (simp add: plugin_reset_session session_inv_def)
next
  case (started ctx sess l1)
  let ?w3 = "(reset_session L w)
              \<lparr>lib := l1,
               dicts := gsignond_dictionary_ref (dicts (reset_session L w)) sd,
               plugin := (plugin (reset_session L w))
                           \<lparr>gsasl_session := sess, session_data := Some sd\<rparr>\<rparr>"
  from client_start_contractD [OF assms(1) started(1)] have "session_inv (plugin ?w3)"
    by (simp add: session_inv_def)
  then show ?thesis
    unfolding started(2) by (rule session_inv_do_gsasl_iteration)
qed (simp_all add: assms(2))

lemma session_inv_invoke:
  assumes "client_start_contract L" and "session_inv (plugin w)"
  shows "session_inv (plugin (invoke L w call))"
  using assms
  by (cases call)
     (simp_all add: session_inv_request_initial session_inv_do_gsasl_iteration
        gsignond_sasl_plugin_request_def gsignond_sasl_plugin_cancel_def
        gsignond_plugin_error_def gsignond_sasl_plugin_user_action_finished_def
        gsignond_sasl_plugin_refresh_def)

lemma plugin_do_gsasl_iteration:
  assumes "gsasl_step64 L (gsasl_callback L (plugin w) (dicts w)) (lib w)
             (gsasl_session (plugin w)) challenge = (step_res, out, l1)"
  shows "plugin (do_gsasl_iteration L w challenge) =
           (if step_res = GSASL_OK
            then (plugin w)\<lparr>session_data := None, gsasl_session := None\<rparr>
            else plugin w)"
  by (simp add: do_gsasl_iteration_eq [OF assms] plugin_reset_session)

lemma plugin_do_gsasl_iteration_fst:
  "plugin (do_gsasl_iteration L w challenge) =
     (if fst (gsasl_step64 L (gsasl_callback L (plugin w) (dicts w)) (lib w)
                (gsasl_session (plugin w)) challenge) = GSASL_OK
      then (plugin w)\<lparr>session_data := None, gsasl_session := None\<rparr>
      else plugin w)"
proof -
  obtain step_res out l1 where
    step: "gsasl_step64 L (gsasl_callback L (plugin w) (dicts w)) (lib w)
             (gsasl_session (plugin w)) challenge = (step_res, out, l1)"
    by (metis prod_cases3)
  show ?thesis
    by (simp add: plugin_do_gsasl_iteration [OF step] step)
qed

lemma request_initial_rejected:
  assumes "gsasl_context (plugin w) = None \<or> realm_unauthorized (dicts w) sd \<or>
           host_unauthorized (dicts w) sd"
  shows "plugin (gsignond_sasl_plugin_request_initial L w sd mechanism) = plugin w"
proof (cases "gsasl_context (plugin w)")
  case None
  then show ?thesis by (simp add: request_initial_no_context)
next
  case (Some ctx)
  show ?thesis
  proof (cases "realm_unauthorized (dicts w) sd")
    case True
    then show ?thesis by (simp add: request_initial_realm [OF Some])
  next
    case False
    with assms Some have "host_unauthorized (dicts w) sd" by simp
    then show ?thesis by (simp add: request_initial_host [OF Some False])
  qed
qed

lemma request_initial_start_failed_plugin:
  assumes "client_start_contract L"
    and "gsasl_context (plugin w) = Some ctx" and "\<not> realm_unauthorized (dicts w) sd"
    and "\<not> host_unauthorized (dicts w) sd"
    and "fst (gsasl_client_start L (lib (reset_session L w)) ctx mechanism) \<noteq> GSASL_OK"
  shows "gsasl_session (plugin (gsignond_sasl_plugin_request_initial L w sd mechanism)) = None \<and>
         session_data (plugin (gsignond_sasl_plugin_request_initial L w sd mechanism)) = None"
proof -
  obtain res sess l1 where
    start: "gsasl_client_start L (lib (reset_session L w)) ctx mechanism = (res, sess, l1)"
    by (metis prod_cases3)
  with assms(5) have res: "res \<noteq> GSASL_OK" by simp
  with client_start_contractD [OF assms(1) start] have "sess = None" by simp
  then show ?thesis
    by (simp add: request_initial_start_failed [OF assms(2-4) start res] plugin_reset_session)
qed

lemma request_initial_started_plugin:
  assumes "client_start_contract L"
    and "gsasl_context (plugin w) = Some ctx" and "\<not> realm_unauthorized (dicts w) sd"
    and "\<not> host_unauthorized (dicts w) sd"
    and "gsasl_client_start L (lib (reset_session L w)) ctx mechanism = (GSASL_OK, sess, l1)"
  shows "sess \<noteq> None \<and>
         (if fst (gsasl_step64 L
                    (gsasl_callback L
                       ((plugin w)\<lparr>gsasl_session := sess, session_data := Some sd\<rparr>)
                       (gsignond_dictionary_ref (dicts (reset_session L w)) sd))
                    l1 sess
                    (gsignond_dictionary_get_string
                       (gsignond_dictionary_ref (dicts (reset_session L w)) sd) sd
                       ''ChallengeBase64'')) = GSASL_OK
          then gsasl_session (plugin (gsignond_sasl_plugin_request_initial L w sd mechanism))
                 = None \<and>
               session_data (plugin (gsignond_sasl_plugin_request_initial L w sd mechanism))
                 = None
          else gsasl_session (plugin (gsignond_sasl_plugin_request_initial L w sd mechanism))
                 = sess \<and>
               session_data (plugin (gsignond_sasl_plugin_request_initial L w sd mechanism))
                 = Some sd)"
proof -
  let ?w3 = "(reset_session L w)
              \<lparr>lib := l1,
               dicts := gsignond_dictionary_ref (dicts (reset_session L w)) sd,
               plugin := (plugin (reset_session L w))
                           \<lparr>gsasl_session := sess, session_data := Some sd\<rparr>\<rparr>"
  let ?ch = "gsignond_dictionary_get_string
               (gsignond_dictionary_ref (dicts (reset_session L w)) sd) sd ''ChallengeBase64''"
  have p3: "plugin ?w3 = (plugin w)\<lparr>gsasl_session := sess, session_data := Some sd\<rparr>"
    by (simp add: plugin_reset_session)
  have "sess \<noteq> None"
    using client_start_contractD [OF assms(1) assms(5)] by simp
  moreover have "gsignond_sasl_plugin_request_initial L w sd mechanism =
                   do_gsasl_iteration L ?w3 ?ch"
    by (rule request_initial_started [OF assms(2-5)])
  moreover note plugin_do_gsasl_iteration_fst [of L ?w3 ?ch]
  ultimately show ?thesis
    by (simp add: p3)
qed

text \<open>
  Claim C10, as the code has it. Take a library whose client start answers \<open>GSASL_OK\<close>
  exactly when it hands out a session. Then every call of the plugin interface keeps the
  invariant that the session handle and the retained session data are both NULL or both
  set, and a new plugin satisfies it. A session reset and the finaliser clear both.
  \<^verbatim>\<open>cancel\<close>, a \<^verbatim>\<open>request\<close> without a session, a step that does not answer \<open>GSASL_OK\<close> and
  a \<^verbatim>\<open>request_initial\<close> rejected for a missing context or by the authorization check
  leave the plugin as it was; a step that answers \<open>GSASL_OK\<close> clears both. A
  \<^verbatim>\<open>request_initial\<close> that passes the checks ends with both cleared when the client start
  fails or the first step answers \<open>GSASL_OK\<close>, and otherwise with both set: the handle the
  client start gave, and the pointer to its session data argument.
\<close>

theorem session_and_session_data_together:
  assumes "client_start_contract L" and "session_inv (plugin w)"
  shows "session_inv (plugin (invoke L w call)) \<and>
         session_inv (fst (gsignond_sasl_plugin_init L l)) \<and>
         gsasl_session (plugin (reset_session L w)) = None \<and>
         session_data (plugin (reset_session L w)) = None \<and>
         gsasl_session (plugin (gsignond_sasl_plugin_finalize L w)) = None \<and>
         session_data (plugin (gsignond_sasl_plugin_finalize L w)) = None \<and>
         plugin (invoke L w Cancel) = plugin w \<and>
         (gsasl_session (plugin w) = None \<longrightarrow> plugin (invoke L w (Request sd)) = plugin w) \<and>
         plugin (do_gsasl_iteration L w challenge) =
           (if fst (gsasl_step64 L (gsasl_callback L (plugin w) (dicts w)) (lib w)
                      (gsasl_session (plugin w)) challenge) = GSASL_OK
            then (plugin w)\<lparr>session_data := None, gsasl_session := None\<rparr>
            else plugin w) \<and>
         (gsasl_context (plugin w) = None \<or> realm_unauthorized (dicts w) sd \<or>
          host_unauthorized (dicts w) sd \<longrightarrow>
            plugin (gsignond_sasl_plugin_request_initial L w sd mechanism) = plugin w) \<and>
         (gsasl_context (plugin w) = Some ctx \<and> \<not> realm_unauthorized (dicts w) sd \<and>
          \<not> host_unauthorized (dicts w) sd \<and>
          fst (gsasl_client_start L (lib (reset_session L w)) ctx mechanism) \<noteq> GSASL_OK \<longrightarrow>
            gsasl_session (plugin (gsignond_sasl_plugin_request_initial L w sd mechanism))
              = None \<and>
            session_data (plugin (gsignond_sasl_plugin_request_initial L w sd mechanism))
              = None) \<and>
         (gsasl_context (plugin w) = Some ctx \<and> \<not> realm_unauthorized (dicts w) sd \<and>
          \<not> host_unauthorized (dicts w) sd \<and>
          gsasl_client_start L (lib (reset_session L w)) ctx mechanism = (GSASL_OK, sess, l1) \<longrightarrow>
            sess \<noteq> None \<and>
            (if fst (gsasl_step64 L
                       (gsasl_callback L
                          ((plugin w)\<lparr>gsasl_session := sess, session_data := Some sd\<rparr>)
                          (gsignond_dictionary_ref (dicts (reset_session L w)) sd))
                       l1 sess
                       (gsignond_dictionary_get_string
                          (gsignond_dictionary_ref (dicts (reset_session L w)) sd) sd
                          ''ChallengeBase64'')) = GSASL_OK
             then gsasl_session (plugin (gsignond_sasl_plugin_request_initial L w sd mechanism))
                    = None \<and>
                  session_data (plugin (gsignond_sasl_plugin_request_initial L w sd mechanism))
                    = None
             else gsasl_session (plugin (gsignond_sasl_plugin_request_initial L w sd mechanism))
                    = sess \<and>
                  session_data (plugin (gsignond_sasl_plugin_request_initial L w sd mechanism))
                    = Some sd))"
proof -
  have "session_inv (fst (gsignond_sasl_plugin_init L l))"
    by (simp add: fst_plugin_init session_inv_def)
  moreover have "plugin (invoke L w Cancel) = plugin w"
    by (simp add: gsignond_sasl_plugin_cancel_def gsignond_plugin_error_def)
  moreover have "gsasl_session (plugin w) = None \<longrightarrow> plugin (invoke L w (Request sd)) = plugin w"
    by (simp add: gsignond_sasl_plugin_request_def gsignond_plugin_error_def)
  moreover note session_inv_invoke [OF assms, of call]
    plugin_do_gsasl_iteration_fst [of L w challenge]
    request_initial_rejected [of w sd L mechanism]
    request_initial_start_failed_plugin [OF assms(1), of w ctx sd mechanism]
    request_initial_started_plugin [OF assms(1), of w ctx sd mechanism sess l1]
  ultimately show ?thesis
    by (simp add: gsignond_sasl_plugin_finalize_def plugin_reset_session)
qed

lemma toy_client_start_contract: "client_start_contract toy_library"
  by (simp add: client_start_contract_def toy_library_def code_defs)

lemma toy_fresh_inv: "session_inv (plugin toy_fresh)"
  by (simp add: session_inv_def toy_fresh_def)

lemma toy_fresh_passes:
  "\<not> realm_unauthorized (dicts toy_fresh) 1 \<and> \<not> host_unauthorized (dicts toy_fresh) 1 \<and>
   \<not> realm_unauthorized (dicts toy_fresh) 2 \<and> \<not> host_unauthorized (dicts toy_fresh) 2 \<and>
   \<not> realm_unauthorized (dicts toy_fresh) 4 \<and> \<not> host_unauthorized (dicts toy_fresh) 4"
  by (simp add: realm_unauthorized_def host_unauthorized_def dictionary_defs
        toy_fresh_def toy_dicts_def)

lemma toy_fresh_client_start:
  "gsasl_client_start toy_library (lib (reset_session toy_library toy_fresh)) 1 ''ANONYMOUS'' =
     (GSASL_OK, Some 7, (True, []))"
  "fst (gsasl_client_start toy_library (lib (reset_session toy_library toy_fresh)) 1 ''PLAIN'')
     \<noteq> GSASL_OK"
  by (simp_all add: lib_reset_session toy_fresh_def toy_library_def code_defs)

lemma toy_fresh_first_step:
  "fst (gsasl_step64 toy_library
          (gsasl_callback toy_library
             ((plugin toy_fresh)\<lparr>gsasl_session := Some 7, session_data := Some sd\<rparr>)
             (gsignond_dictionary_ref (dicts (reset_session toy_library toy_fresh)) sd))
          (True, []) (Some 7)
          (gsignond_dictionary_get_string
             (gsignond_dictionary_ref (dicts (reset_session toy_library toy_fresh)) sd) sd
             ''ChallengeBase64'')) =
   (case gsignond_dictionary_get_string toy_dicts sd ''AnonymousToken'' of
      None \<Rightarrow> GSASL_NO_ANONYMOUS_TOKEN
    | Some token \<Rightarrow>
        (case gsignond_dictionary_get_string toy_dicts sd ''ChallengeBase64'' of
           None \<Rightarrow> GSASL_OK
         | Some challenge \<Rightarrow> GSASL_NEEDS_MORE))"
proof -
  have r: "dicts (reset_session L toy_fresh) = toy_dicts" for L :: "toy_state gsasl_library"
    by (simp add: dicts_reset_session toy_fresh_def)
  have get: "gsignond_dictionary_get_string (gsignond_dictionary_ref st sd) sd key =
             gsignond_dictionary_get_string st sd key" for st key
    by (simp add: gsignond_dictionary_get_string_def gsignond_dictionary_get_def ref_apply
          split: option.split)
  show ?thesis
    by (simp add: r get toy_library_def gsasl_callback_eq_resolve resolve_def code_defs
          split: option.split)
qed

text \<open>
  On the toy library, which keeps the contract: a start with a challenge, and a start
  whose first step fails for want of a token, end with session 7 and the argument
  retained; a start that finishes at once, and one with an unknown mechanism name, end
  with both cleared.
\<close>

theorem session_and_session_data_together_witness:
  "gsasl_session (plugin (gsignond_sasl_plugin_request_initial toy_library toy_fresh 2
     ''ANONYMOUS'')) = Some 7 \<and>
   session_data (plugin (gsignond_sasl_plugin_request_initial toy_library toy_fresh 2
     ''ANONYMOUS'')) = Some 2 \<and>
   gsasl_session (plugin (gsignond_sasl_plugin_request_initial toy_library toy_fresh 4
     ''ANONYMOUS'')) = Some 7 \<and>
   session_data (plugin (gsignond_sasl_plugin_request_initial toy_library toy_fresh 4
     ''ANONYMOUS'')) = Some 4 \<and>
   gsasl_session (plugin (gsignond_sasl_plugin_request_initial toy_library toy_fresh 1
     ''ANONYMOUS'')) = None \<and>
   session_data (plugin (gsignond_sasl_plugin_request_initial toy_library toy_fresh 1
     ''ANONYMOUS'')) = None \<and>
   gsasl_session (plugin (gsignond_sasl_plugin_request_initial toy_library toy_fresh 1
     ''PLAIN'')) = None \<and>
   session_data (plugin (gsignond_sasl_plugin_request_initial toy_library toy_fresh 1
     ''PLAIN'')) = None \<and>
   session_inv (plugin (invoke toy_library toy_fresh (RequestInitial 2 ''ANONYMOUS'')))"
proof -
  note inst = session_and_session_data_together [OF toy_client_start_contract toy_fresh_inv]
  have tokens:
    "gsignond_dictionary_get_string toy_dicts 1 ''AnonymousToken'' = Some ''tok''"
    "gsignond_dictionary_get_string toy_dicts 1 ''ChallengeBase64'' = None"
    "gsignond_dictionary_get_string toy_dicts 2 ''AnonymousToken'' = Some ''other''"
    "gsignond_dictionary_get_string toy_dicts 2 ''ChallengeBase64'' = Some ''Yw==''"
    "gsignond_dictionary_get_string toy_dicts 4 ''AnonymousToken'' = None"
    "gsignond_dictionary_get_string toy_dicts (Suc 0) ''AnonymousToken'' = Some ''tok''"
    "gsignond_dictionary_get_string toy_dicts (Suc 0) ''ChallengeBase64'' = None"
    by (simp_all add: toy_dicts_def dictionary_defs)
  from inst [where sd = 2 and mechanism = "''ANONYMOUS''" and ctx = 1 and sess = "Some 7"
              and ?l1.0 = "(True, [])" and call = "RequestInitial 2 ''ANONYMOUS''"]
       inst [where sd = 4 and mechanism = "''ANONYMOUS''" and ctx = 1 and sess = "Some 7"
              and ?l1.0 = "(True, [])"]
       inst [where sd = 1 and mechanism = "''ANONYMOUS''" and ctx = 1 and sess = "Some 7"
              and ?l1.0 = "(True, [])"]
       inst [where sd = 1 and mechanism = "''PLAIN''" and ctx = 1]
       toy_fresh_context toy_fresh_passes toy_fresh_client_start
  show ?thesis
    by (simp add: toy_fresh_first_step tokens code_defs)
qed

text \<open>
  Without the contract the invariant can fail: after a start on the variant library the
  plugin holds a session handle and no session data.
\<close>

theorem session_without_session_data_counterexample:
  "session_inv (plugin toy_fresh) \<and>
   \<not> session_inv
       (plugin (invoke toy_leaky_library toy_fresh (RequestInitial 1 ''ANONYMOUS''))) \<and>
   gsasl_session
     (plugin (invoke toy_leaky_library toy_fresh (RequestInitial 1 ''ANONYMOUS''))) = Some 7 \<and>
   session_data
     (plugin (invoke toy_leaky_library toy_fresh (RequestInitial 1 ''ANONYMOUS''))) = None"
proof -
  have pass: "\<not> realm_unauthorized (dicts toy_fresh) 1" "\<not> host_unauthorized (dicts toy_fresh) 1"
    using toy_fresh_passes by simp_all
  have start: "gsasl_client_start toy_leaky_library
                 (lib (reset_session toy_leaky_library toy_fresh)) 1 ''ANONYMOUS'' =
               (GSASL_UNKNOWN_MECHANISM, Some 7, (True, []))"
    by (simp add: lib_reset_session toy_fresh_def toy_leaky_library_def)
  have bad: "GSASL_UNKNOWN_MECHANISM \<noteq> GSASL_OK"
    by (simp add: code_defs)
  from request_initial_start_failed [OF toy_fresh_context pass start bad]
  show ?thesis
    by (simp add: session_inv_def plugin_reset_session toy_fresh_def)
qed

text \<open>
  After a failed initialisation that left a context, the plugin holds the context but no
  callback is registered: the type is "sasl", and a start gets past the context check and
  fails in its first step, since the library cannot ask for the token.
\<close>

lemma failed_init_leaving_context:
  "plugin toy_half_initialised =
     \<lparr>gsasl_context = Some 1, gsasl_session = None, session_data = None\<rparr> \<and>
   lib toy_half_initialised = (False, []) \<and>
   get_property_type (plugin toy_half_initialised) = ''sasl'' \<and>
   emitted (gsignond_sasl_plugin_request_initial toy_library toy_half_initialised 1
              ''ANONYMOUS'') =
     [Error GSIGNOND_ERROR_NOT_AUTHORIZED ''Authorization error 52'']"
proof -
  have w: "toy_half_initialised =
             \<lparr>plugin = \<lparr>gsasl_context = Some 1, gsasl_session = None, session_data = None\<rparr>,
              dicts = toy_dicts, lib = (False, []), emitted = []\<rparr>"
    by (simp add: toy_half_initialised_def gsignond_sasl_plugin_init_def toy_library_def
          code_defs GSASL_MALLOC_ERROR_def)
  have ctx: "gsasl_context (plugin toy_half_initialised) = Some 1"
    by (simp add: w)
  have pass: "\<not> realm_unauthorized (dicts toy_half_initialised) 1"
    "\<not> host_unauthorized (dicts toy_half_initialised) 1"
    by (simp_all add: w realm_unauthorized_def host_unauthorized_def dictionary_defs
          toy_dicts_def)
  have start: "gsasl_client_start toy_library
                 (lib (reset_session toy_library toy_half_initialised)) 1 ''ANONYMOUS'' =
               (GSASL_OK, Some 7, (False, []))"
    by (simp add: lib_reset_session w toy_library_def)
  let ?w3 = "(reset_session toy_library toy_half_initialised)
              \<lparr>lib := (False, []),
               dicts := gsignond_dictionary_ref
                          (dicts (reset_session toy_library toy_half_initialised)) 1,
               plugin := (plugin (reset_session toy_library toy_half_initialised))
                           \<lparr>gsasl_session := Some 7, session_data := Some 1\<rparr>\<rparr>"
  have step: "gsasl_step64 toy_library (gsasl_callback toy_library (plugin ?w3) (dicts ?w3))
                (lib ?w3) (gsasl_session (plugin ?w3)) challenge =
              (GSASL_NO_ANONYMOUS_TOKEN, [], (False, []))" for challenge
    by (simp add: toy_library_def code_defs)
  from request_initial_started [OF ctx pass start] do_gsasl_iteration_eq [OF step]
  have "emitted (gsignond_sasl_plugin_request_initial toy_library toy_half_initialised 1
                   ''ANONYMOUS'') =
          [Error GSIGNOND_ERROR_NOT_AUTHORIZED (''Authorization error '' @ format_d 52)]"
    by (simp add: code_defs emitted_reset_session w)
  then show ?thesis
    by (simp add: w get_property_type_def format_d_52)
qed

end
